theory Spec2Isabelle
  imports Complex_Main "HOL-Library.Char_ord" "HOL-Library.List_Lexorder" "HOL-Library.Sublist"
    "HOL-Library.AList" "HOL-Library.Multiset"
begin

section \<open>Stem Lab backend (\<^verbatim>\<open>backend/server.py\<close>)\<close>

text \<open>
  A shallow embedding of the request handlers of \<^verbatim>\<open>backend/server.py\<close>.
  Python's \<^verbatim>\<open>str\<close> is modelled by \<^typ>\<open>string\<close> restricted to ASCII text, a
  \<^verbatim>\<open>dict\<close> by a map (or an association list where the iteration order matters),
  a raised exception by the \<open>Inl\<close> branch of a sum, and the module-level mutable tables by
  state that every function takes and returns. A function that raises returns the state as
  it was at the \<^verbatim>\<open>raise\<close>.
\<close>

subsection \<open>Exceptions\<close>

text \<open>
  \<^verbatim>\<open>HTTPException(status_code=..., detail=...)\<close> carries the status and the detail
  text. The other constructors are the exceptions that the handlers do not catch (the
  framework answers them with status 500).
\<close>

datatype error =
    HTTPException nat string
  | AttributeError
  | KeyError string
  | TypeError
  | JSONDecodeError
  | OSError
  | ValueError

fun status_code :: "error \<Rightarrow> nat" where
  "status_code (HTTPException c d) = c"
| "status_code AttributeError = 500"
| "status_code (KeyError k) = 500"
| "status_code TypeError = 500"
| "status_code JSONDecodeError = 500"
| "status_code OSError = 500"
| "status_code ValueError = 500"

subsection \<open>Strings\<close>

text \<open>
  \<^verbatim>\<open>str.strip()\<close> removes leading and trailing whitespace; on ASCII the whitespace
  characters of \<^verbatim>\<open>str.isspace\<close> are the codes 9 to 13, 28 to 31 and 32.
  \<^verbatim>\<open>str.lower()\<close> maps \<open>A\<close>..\<open>Z\<close> to \<open>a\<close>..\<open>z\<close>.
\<close>

definition isspace :: "char \<Rightarrow> bool" where
  "isspace c \<longleftrightarrow>
     c \<in> set [CHR 0x09, CHR 0x0A, CHR 0x0B, CHR 0x0C, CHR 0x0D,
                CHR 0x1C, CHR 0x1D, CHR 0x1E, CHR 0x1F, CHR 0x20]"

definition strip :: "string \<Rightarrow> string" where
  "strip s = rev (dropWhile isspace (rev (dropWhile isspace s)))"

definition lower_char :: "char \<Rightarrow> char" where
  "lower_char c =
     (case map_of (zip ''ABCDEFGHIJKLMNOPQRSTUVWXYZ'' ''abcdefghijklmnopqrstuvwxyz'') c of
        None \<Rightarrow> c
      | Some l \<Rightarrow> l)"

definition lower :: "string \<Rightarrow> string" where
  "lower s = map lower_char s"

text \<open>\<^verbatim>\<open>s.startswith(p)\<close> is \<^term>\<open>prefix p s\<close>.\<close>

subsection \<open>Accounts and verification codes\<close>

text \<open>
  A naive \<^verbatim>\<open>datetime\<close> is modelled by its number of microseconds since
  \<^verbatim>\<open>datetime.min\<close>, so that \<^verbatim>\<open>+ timedelta\<close> is addition and \<open>>\<close> is the order
  on \<^typ>\<open>int\<close>; the clock is assumed far enough from \<^verbatim>\<open>datetime.max\<close> for the
  addition not to overflow. Every reading of \<^verbatim>\<open>datetime.utcnow()\<close> is a
  parameter of the function that reads it.

  The code keeps the expiry of a pending code as the text
  \<^verbatim>\<open>(utcnow() + CODE_TTL).isoformat() + "Z"\<close> and reads it back with
  \<^verbatim>\<open>datetime.fromisoformat(entry["expires"].replace("Z", ""))\<close>. On a naive datetime
  this round trip is the identity, so the entry of the model holds the datetime itself.
\<close>

type_synonym datetime = int

definition CODE_TTL :: int where
  "CODE_TTL = 10 * 60 * 1000000"

record entry =
  code :: string
  expires :: datetime

type_synonym pending_codes = "string \<rightharpoonup> entry"

type_synonym account = "string \<rightharpoonup> string"

type_synonym accounts = "string \<rightharpoonup> account"

text \<open>
  The state of the account flow: the table \<^verbatim>\<open>accounts\<close>, the table last written to
  \<^verbatim>\<open>accounts.json\<close> by \<^verbatim>\<open>save_accounts\<close> (\<open>None\<close> before the first write),
  and \<^verbatim>\<open>PENDING_CODES\<close>.
\<close>

record auth_state =
  accounts :: accounts
  accounts_json :: "accounts option"
  PENDING_CODES :: pending_codes

definition normalize_email :: "string \<Rightarrow> string" where
  "normalize_email email = lower (strip email)"

text \<open>\<^verbatim>\<open>d.get(k) or ""\<close> on a dictionary of strings.\<close>

definition get_or_empty :: "(string \<rightharpoonup> string) \<Rightarrow> string \<Rightarrow> string" where
  "get_or_empty d k = (case d k of None \<Rightarrow> [] | Some v \<Rightarrow> v)"

definition save_accounts :: "accounts \<Rightarrow> auth_state \<Rightarrow> auth_state" where
  "save_accounts a s = s\<lparr>accounts_json := Some a\<rparr>"

text \<open>
  \<^verbatim>\<open>record_account\<close>; \<open>utcnow_iso\<close> is \<^verbatim>\<open>datetime.utcnow().isoformat()\<close>.
  \<^verbatim>\<open>account.update\<close> keeps every other key of an account that already exists.
\<close>

definition record_account ::
  "string \<Rightarrow> string \<Rightarrow> string \<Rightarrow> string \<Rightarrow> auth_state \<Rightarrow> account \<times> auth_state" where
  "record_account utcnow_iso email name password_hash s =
     (let email_key = normalize_email email;
          now = utcnow_iso @ ''Z'';
          account = (case accounts s email_key of None \<Rightarrow> Map.empty | Some a \<Rightarrow> a);
          created_at = (case account ''createdAt'' of
                          None \<Rightarrow> now
                        | Some c \<Rightarrow> if c = [] then now else c);
          account' = account(''email'' \<mapsto> email, ''name'' \<mapsto> name,
                        ''passwordHash'' \<mapsto> password_hash,
                        ''createdAt'' \<mapsto> created_at, ''updatedAt'' \<mapsto> now);
          accounts' = (accounts s)(email_key \<mapsto> account')
      in (account', save_accounts accounts' (s\<lparr>accounts := accounts'\<rparr>)))"

definition store_verification_code ::
  "datetime \<Rightarrow> string \<Rightarrow> string \<Rightarrow> pending_codes \<Rightarrow> pending_codes" where
  "store_verification_code utcnow email c pc =
     pc(normalize_email email \<mapsto> \<lparr>code = c, expires = utcnow + CODE_TTL\<rparr>)"

definition pop_verification_code ::
  "datetime \<Rightarrow> string \<Rightarrow> string \<Rightarrow> pending_codes \<Rightarrow> (error + entry) \<times> pending_codes" where
  "pop_verification_code utcnow email c pc =
     (case pc (normalize_email email) of
        None \<Rightarrow>
          (Inl (HTTPException 400 ''No verification code requested for this email.''), pc)
      | Some entry \<Rightarrow>
          if utcnow > expires entry then
            (Inl (HTTPException 400 ''Verification code has expired.''), pc)
          else if code entry \<noteq> c then
            (Inl (HTTPException 400 ''Invalid verification code.''), pc)
          else (Inr entry, pc(normalize_email email := None)))"

text \<open>
  \<^verbatim>\<open>generate_code\<close>: \<open>r\<close> is the draw \<^verbatim>\<open>random.randint(0, 999999)\<close>, formatted
  by \<^verbatim>\<open>f"{r:06d}"\<close> (six digits, padded with zeros on the left).
\<close>

definition digit_char :: "nat \<Rightarrow> char" where
  "digit_char d = ''0123456789'' ! d"

definition generate_code :: "nat \<Rightarrow> string" where
  "generate_code r = map (\<lambda>i. digit_char ((r div 10 ^ i) mod 10)) [5, 4, 3, 2, 1, 0]"

text \<open>
  \<^verbatim>\<open>request_code\<close> (\<^verbatim>\<open>POST /api/auth/request-code\<close>). The mail (or the console line)
  that \<^verbatim>\<open>send_verification_email\<close> produces never fails the request and changes none
  of the tables; it is left out.
\<close>

definition request_code ::
  "nat \<Rightarrow> datetime \<Rightarrow> (string \<rightharpoonup> string) \<Rightarrow> auth_state \<Rightarrow> (error + bool) \<times> auth_state" where
  "request_code r utcnow payload s =
     (let email = strip (get_or_empty payload ''email'')
      in if email = [] then (Inl (HTTPException 400 ''Email is required.''), s)
         else (Inr True,
               s\<lparr>PENDING_CODES :=
                    store_verification_code utcnow email (generate_code r) (PENDING_CODES s)\<rparr>))"

text \<open>
  \<^verbatim>\<open>verify_code\<close> (\<^verbatim>\<open>POST /api/auth/verify\<close>). \<open>sha256_hex\<close> stands for
  \<^verbatim>\<open>hashlib.sha256(password.encode("utf-8")).hexdigest()\<close>; \<open>utcnow\<close> is the clock
  read by \<^verbatim>\<open>pop_verification_code\<close> and \<open>utcnow_iso\<close> the one read by
  \<^verbatim>\<open>record_account\<close>.
\<close>

record account_summary =
  email :: string
  name :: string
  createdAt :: "string option"
  updatedAt :: "string option"

text \<open>Truthiness of the result of \<^verbatim>\<open>payload.get(k)\<close>: neither \<^verbatim>\<open>None\<close> nor empty.\<close>

definition truthy_opt :: "string option \<Rightarrow> bool" where
  "truthy_opt v = (case v of None \<Rightarrow> False | Some x \<Rightarrow> x \<noteq> [])"

definition verify_code ::
  "(string \<Rightarrow> string) \<Rightarrow> datetime \<Rightarrow> string \<Rightarrow> (string \<rightharpoonup> string) \<Rightarrow> auth_state
     \<Rightarrow> (error + account_summary) \<times> auth_state" where
  "verify_code sha256_hex utcnow utcnow_iso payload s =
     (let email = strip (get_or_empty payload ''email'');
          c = strip (get_or_empty payload ''code'');
          password = get_or_empty payload ''password'';
          password_hash = payload ''passwordHash'';
          name = strip (get_or_empty payload ''name'')
      in if email = [] \<or> c = [] \<or> \<not> (password \<noteq> [] \<or> truthy_opt password_hash)
         then (Inl (HTTPException 400 ''Email, code, and password are required.''), s)
         else
           (case pop_verification_code utcnow email c (PENDING_CODES s) of
              (Inl e, pc) \<Rightarrow> (Inl e, s\<lparr>PENDING_CODES := pc\<rparr>)
            | (Inr entry, pc) \<Rightarrow>
                let password_hash' =
                      (if truthy_opt password_hash then get_or_empty payload ''passwordHash''
                       else sha256_hex password);
                    (account, s') =
                      record_account utcnow_iso email name password_hash'
                        (s\<lparr>PENDING_CODES := pc\<rparr>)
                in (case account ''email'' of
                      None \<Rightarrow> (Inl (KeyError ''email''), s')
                    | Some e \<Rightarrow>
                        (Inr \<lparr>email = e, name = get_or_empty account ''name'',
                              createdAt = account ''createdAt'',
                              updatedAt = account ''updatedAt''\<rparr>, s'))))"

subsection \<open>JSON values\<close>

text \<open>
  What \<^verbatim>\<open>json.loads\<close> returns: \<^verbatim>\<open>None\<close>, a \<^verbatim>\<open>bool\<close>, an \<^verbatim>\<open>int\<close>, a
  \<^verbatim>\<open>float\<close> (a finite one is held by its value; \<^verbatim>\<open>NaN\<close>, \<^verbatim>\<open>Infinity\<close> and
  \<^verbatim>\<open>-Infinity\<close> are accepted by \<^verbatim>\<open>json.loads\<close> too), a \<^verbatim>\<open>str\<close>, a \<^verbatim>\<open>list\<close>
  or a \<^verbatim>\<open>dict\<close> with string keys. A dictionary is an association list in insertion
  order; \<^verbatim>\<open>d.get(k)\<close> is \<^term>\<open>map_of d k\<close>. Text is ASCII, as everywhere in the
  model: a \<^verbatim>\<open>str\<close> with a lone surrogate, which UTF-8 cannot encode, has no
  counterpart here.
\<close>

datatype json =
    JNull
  | JBool bool
  | JNum int
  | JFloat rat
  | JNaN
  | JInfinity bool
  | JStr string
  | JList "json list"
  | JDict "(string \<times> json) list"

text \<open>Truthiness, as \<^verbatim>\<open>not\<close> and \<^verbatim>\<open>or\<close> read it.\<close>

fun truthy :: "json \<Rightarrow> bool" where
  "truthy JNull = False"
| "truthy (JBool b) = b"
| "truthy (JNum n) = (n \<noteq> 0)"
| "truthy (JFloat q) = (q \<noteq> 0)"
| "truthy JNaN = True"
| "truthy (JInfinity positive) = True"
| "truthy (JStr s) = (s \<noteq> [])"
| "truthy (JList xs) = (xs \<noteq> [])"
| "truthy (JDict kv) = (kv \<noteq> [])"

text \<open>\<^verbatim>\<open>isinstance(v, dict)\<close> and \<^verbatim>\<open>isinstance(v, str)\<close>.\<close>

fun is_dict :: "json \<Rightarrow> bool" where
  "is_dict (JDict kv) = True"
| "is_dict v = False"

fun is_str :: "json \<Rightarrow> bool" where
  "is_str (JStr s) = True"
| "is_str v = False"

fun dict_items :: "json \<Rightarrow> (string \<times> json) list" where
  "dict_items (JDict kv) = kv"
| "dict_items v = []"

fun str_value :: "json \<Rightarrow> string" where
  "str_value (JStr s) = s"
| "str_value v = []"

text \<open>
  \<^verbatim>\<open>JSONResponse(content)\<close> renders with
  \<^verbatim>\<open>json.dumps(content, ensure_ascii=False, allow_nan=False).encode("utf-8")\<close>: a
  \<^verbatim>\<open>NaN\<close> or an infinity anywhere in the content raises ValueError, which no handler
  catches. (So would a lone surrogate, at the encoding.)
\<close>

primrec renderable :: "json \<Rightarrow> bool" where
  "renderable JNull = True"
| "renderable (JBool b) = True"
| "renderable (JNum n) = True"
| "renderable (JFloat q) = True"
| "renderable JNaN = False"
| "renderable (JInfinity positive) = False"
| "renderable (JStr s) = True"
| "renderable (JList xs) = list_all (\<lambda>b. b) (map renderable xs)"
| "renderable (JDict kv) = list_all (\<lambda>b. b) (map (\<lambda>p. snd p) (map (map_prod id renderable) kv))"

subsection \<open>Inline audio payloads\<close>

text \<open>
  \<^verbatim>\<open>base64.b64encode\<close> and \<^verbatim>\<open>base64.b64decode\<close> belong to the standard library
  and are parameters: \<open>b64encode\<close> maps bytes to text, \<open>b64decode\<close> maps text to bytes or
  raises (\<open>Inl\<close> holds the text of the exception).
\<close>

definition encode_audio_file :: "(string \<Rightarrow> string) \<Rightarrow> string \<Rightarrow> string" where
  "encode_audio_file b64encode data = ''data:audio/wav;base64,'' @ b64encode data"

text \<open>\<^verbatim>\<open>p in s\<close> on strings: \<open>p\<close> occurs in \<open>s\<close> as a contiguous substring.\<close>

fun contains :: "string \<Rightarrow> string \<Rightarrow> bool" where
  "contains p [] = (p = [])"
| "contains p (x # xs) = (prefix p (x # xs) \<or> contains p xs)"

text \<open>
  \<^verbatim>\<open>header, _, base64_part = value.partition(",")\<close>: the text before the first comma
  and the text after it (the whole text and the empty text when there is no comma).
\<close>

definition partition_comma :: "string \<Rightarrow> string \<times> string" where
  "partition_comma v =
     (takeWhile (\<lambda>c. c \<noteq> CHR '','') v, drop 1 (dropWhile (\<lambda>c. c \<noteq> CHR '','') v))"

definition decode_data_url :: "(string \<Rightarrow> string + string) \<Rightarrow> string \<Rightarrow> string + string" where
  "decode_data_url b64decode value0 =
     (let v = strip value0
      in if prefix ''data:'' v then
           (let (header, base64_part) = partition_comma v
            in if \<not> contains '';base64'' header then Inl ''Unsupported data URL format''
               else b64decode base64_part)
         else b64decode v)"


subsection \<open>Paths and the host file system\<close>

text \<open>
  \<^verbatim>\<open>pathlib\<close> on POSIX: the parts of a path are the texts between slashes, without
  the empty ones and the single dots (\<^verbatim>\<open>..\<close> stays); a path that starts with a slash
  is absolute, and \<^verbatim>\<open>base / p\<close> is \<^verbatim>\<open>p\<close> itself then. \<^verbatim>\<open>Path(p).name\<close> is the
  last part. With \<open>i\<close> the position of the last dot of the name, \<^verbatim>\<open>Path(p).suffix\<close> is
  \<^verbatim>\<open>name[i:]\<close> when \<open>0 < i < len(name) - 1\<close> and empty otherwise, and
  \<^verbatim>\<open>Path(p).stem\<close> is the rest of the name (Python 3.8 to 3.13).
\<close>

fun split_on :: "char \<Rightarrow> string \<Rightarrow> string list" where
  "split_on c [] = [[]]"
| "split_on c (x # xs) =
     (if x = c then [] # split_on c xs
      else (case split_on c xs of [] \<Rightarrow> [[x]] | y # ys \<Rightarrow> (x # y) # ys))"

definition path_parts :: "string \<Rightarrow> string list" where
  "path_parts p = filter (\<lambda>q. q \<noteq> [] \<and> q \<noteq> ''.'') (split_on CHR ''/'' p)"

definition is_absolute :: "string \<Rightarrow> bool" where
  "is_absolute p = prefix ''/'' p"

fun join_parts :: "string list \<Rightarrow> string" where
  "join_parts [] = []"
| "join_parts [q] = q"
| "join_parts (q # qs) = q @ ''/'' @ join_parts qs"

text \<open>The path as \<^verbatim>\<open>pathlib\<close> writes it, relative to the base it was joined to.\<close>

definition path_str :: "string \<Rightarrow> string" where
  "path_str p = (if is_absolute p then ''/'' else []) @ join_parts (path_parts p)"

definition path_name :: "string \<Rightarrow> string" where
  "path_name p = (if path_parts p = [] then [] else last (path_parts p))"

definition path_suffix :: "string \<Rightarrow> string" where
  "path_suffix p =
     (let fname = path_name p;
          ext = rev (takeWhile (\<lambda>c. c \<noteq> CHR ''.'') (rev fname))
      in if CHR ''.'' \<in> set fname \<and> ext \<noteq> [] \<and> length ext + 1 < length fname
         then CHR ''.'' # ext else [])"

definition path_stem :: "string \<Rightarrow> string" where
  "path_stem p = take (length (path_name p) - length (path_suffix p)) (path_name p)"

text \<open>
  Opening a file for writing. A NUL character in the path raises ValueError before the
  file system is asked. A file name longer than \<^verbatim>\<open>NAME_MAX\<close> (255 bytes on the Linux
  file systems) raises OSError, and so does a path through a directory that does not
  exist or that ends on a directory (FileNotFoundError, NotADirectoryError and
  IsADirectoryError are OSErrors). What happens to a path that leaves the directories of
  the model is up to the host: \<open>host_open p\<close> tells whether the host lets the process
  create or truncate the file at \<open>p\<close>.
\<close>

definition NAME_MAX :: nat where
  "NAME_MAX = 255"

subsection \<open>The library directory\<close>

text \<open>
  A session directory \<^verbatim>\<open>library/<id>\<close> holds the stem files \<^verbatim>\<open><name>.wav\<close>, the
  file \<^verbatim>\<open>meta.json\<close> and the file \<^verbatim>\<open>bundle.zip\<close>; the three kinds of names are
  disjoint, and a session directory has no directory inside. \<open>wavs\<close> holds the stem
  files, each under its name without \<^verbatim>\<open>.wav\<close>, with its bytes. \<^verbatim>\<open>meta.json\<close> either
  holds a JSON document (\<^verbatim>\<open>json.dumps\<close> followed by \<^verbatim>\<open>json.loads\<close> gives the value
  back) or something that \<^verbatim>\<open>json.loads(meta_path.read_text())\<close> rejects.
  \<^verbatim>\<open>bundle.zip\<close> is the archive of the stem files and \<^verbatim>\<open>meta.json\<close> as they were
  when it was built. \<^verbatim>\<open>LIBRARY_ROOT\<close> holds the session directories under their ids.

  The position of an entry in these lists means nothing: the order in which the file
  system enumerates a directory is the parameter \<open>dir_rank\<close> of the handlers that
  enumerate one (entries come by ascending rank of their names).
\<close>

datatype meta_file = Unparseable | Parsed json

record session_dir =
  wavs :: "(string \<times> string) list"
  meta_json :: "meta_file option"
  bundle_zip :: "((string \<times> string) list \<times> meta_file option) option"

type_synonym library_root = "(string \<times> session_dir) list"

definition empty_dir :: session_dir where
  "empty_dir = \<lparr>wavs = [], meta_json = None, bundle_zip = None\<rparr>"

definition map_session ::
  "string \<Rightarrow> (session_dir \<Rightarrow> session_dir) \<Rightarrow> library_root \<Rightarrow> library_root" where
  "map_session item_id f lib = map (\<lambda>(j, d). if j = item_id then (j, f d) else (j, d)) lib"

text \<open>\<^verbatim>\<open>item_dir.mkdir(parents=True, exist_ok=True)\<close>.\<close>

definition mkdir :: "string \<Rightarrow> library_root \<Rightarrow> library_root" where
  "mkdir item_id lib =
     (if map_of lib item_id = None then lib @ [(item_id, empty_dir)] else lib)"

text \<open>
  Where a path that starts in a session directory leads, part by part: inside a session
  directory only \<^verbatim>\<open>..\<close> leads on (to \<^verbatim>\<open>library\<close>), in \<^verbatim>\<open>library\<close> the name of a
  session directory leads into it and \<^verbatim>\<open>..\<close> leads out of the model, and anything
  else is not a directory (\<open>None\<close>).
\<close>

datatype place = InSession string | InLibrary | Outside

fun walk :: "library_root \<Rightarrow> place \<Rightarrow> string list \<Rightarrow> place option" where
  "walk lib pl [] = Some pl"
| "walk lib (InSession i) (c # cs) = (if c = ''..'' then walk lib InLibrary cs else None)"
| "walk lib InLibrary (c # cs) =
     (if c = ''..'' then Some Outside
      else if map_of lib c \<noteq> None then walk lib (InSession c) cs
      else None)"
| "walk lib Outside (c # cs) = Some Outside"

text \<open>The file \<open>c\<close> (a name that ends in \<^verbatim>\<open>.wav\<close>) written in a session directory.\<close>

definition write_wav :: "string \<Rightarrow> string \<Rightarrow> session_dir \<Rightarrow> session_dir" where
  "write_wav c data d = d\<lparr>wavs := AList.update (take (length c - 4) c) data (wavs d)\<rparr>"

text \<open>
  \<^verbatim>\<open>(item_dir / target).write_bytes(data)\<close>. A file written in \<^verbatim>\<open>library\<close> itself or
  outside it changes nothing that the handlers read.
\<close>

definition write_bytes ::
  "(string \<Rightarrow> bool) \<Rightarrow> string \<Rightarrow> string \<Rightarrow> string \<Rightarrow> library_root \<Rightarrow> error + library_root" where
  "write_bytes host_open item_id target data lib =
     (let ps = path_parts target
      in if CHR 0x00 \<in> set target then Inl ValueError
         else if is_absolute target then
           (if host_open (path_str target) then Inr lib else Inl OSError)
         else if ps = [] then Inl OSError
         else
           (case walk lib (InSession item_id) (butlast ps) of
              None \<Rightarrow> Inl OSError
            | Some Outside \<Rightarrow>
                if host_open (path_str target) then Inr lib else Inl OSError
            | Some InLibrary \<Rightarrow>
                if map_of lib (last ps) \<noteq> None \<or> length (last ps) > NAME_MAX then Inl OSError
                else Inr lib
            | Some (InSession i) \<Rightarrow>
                if length (last ps) > NAME_MAX then Inl OSError
                else Inr (map_session i (write_wav (last ps) data) lib)))"

text \<open>
  The loop of \<^verbatim>\<open>save_library\<close> over \<^verbatim>\<open>stems.items()\<close>: a value that is not a string
  is passed over, a string that does not decode raises 400 and ends the loop, a decoded
  string is written to \<^verbatim>\<open><name>.wav\<close> (an exception of the write ends the loop too).
  The result is the exception, if any, and the library as the loop leaves it.
\<close>

fun write_stems ::
  "(string \<Rightarrow> string + string) \<Rightarrow> (string \<Rightarrow> bool) \<Rightarrow> string \<Rightarrow> (string \<times> json) list
     \<Rightarrow> library_root \<Rightarrow> error option \<times> library_root" where
  "write_stems b64decode host_open item_id [] lib = (None, lib)"
| "write_stems b64decode host_open item_id ((stem_name, v) # rest) lib =
     (if \<not> is_str v then write_stems b64decode host_open item_id rest lib
      else
        (case decode_data_url b64decode (str_value v) of
           Inl exc \<Rightarrow>
             (Some (HTTPException 400
                (''Could not decode stem '' @ [CHR 0x27] @ stem_name @ [CHR 0x27] @ '': '' @ exc)),
              lib)
         | Inr data \<Rightarrow>
             (case write_bytes host_open item_id (stem_name @ ''.wav'') data lib of
                Inl e \<Rightarrow> (Some e, lib)
              | Inr lib' \<Rightarrow> write_stems b64decode host_open item_id rest lib')))"

text \<open>\<^verbatim>\<open>meta.json\<close> written and \<^verbatim>\<open>bundle.zip\<close> built in a session directory.\<close>

definition write_meta :: "json \<Rightarrow> session_dir \<Rightarrow> session_dir" where
  "write_meta metadata d =
     d\<lparr>meta_json := Some (Parsed metadata),
       bundle_zip := Some (wavs d, Some (Parsed metadata))\<rparr>"

text \<open>
  \<^verbatim>\<open>save_library\<close> (\<^verbatim>\<open>POST /api/library\<close>). \<open>body\<close> is the outcome of
  \<^verbatim>\<open>request.json()\<close> (\<open>Inl\<close> holds the text of its exception), \<open>item_id\<close> is
  \<^verbatim>\<open>uuid4().hex\<close> and \<open>utcnow_iso\<close> is \<^verbatim>\<open>datetime.utcnow().isoformat()\<close>. The
  answer is rendered last, when the session is already on disk.
\<close>

definition save_library ::
  "(string \<Rightarrow> string + string) \<Rightarrow> (string \<Rightarrow> bool) \<Rightarrow> string \<Rightarrow> string \<Rightarrow> string + json
     \<Rightarrow> library_root \<Rightarrow> (error + json) \<times> library_root" where
  "save_library b64decode host_open item_id utcnow_iso body lib =
     (case body of
        Inl exc \<Rightarrow> (Inl (HTTPException 400 (''Invalid JSON payload: '' @ exc)), lib)
      | Inr payload \<Rightarrow>
          if \<not> is_dict payload then (Inl AttributeError, lib)
          else
            (let stems = map_of (dict_items payload) ''stems''
             in if (case stems of None \<Rightarrow> True | Some v \<Rightarrow> \<not> is_dict v \<or> \<not> truthy v)
                then (Inl (HTTPException 400 ''Payload must include stems''), lib)
                else
                  (let stems_items = (case stems of None \<Rightarrow> [] | Some v \<Rightarrow> dict_items v);
                       title = (case map_of (dict_items payload) ''title'' of
                                  None \<Rightarrow> JStr ''Session''
                                | Some t \<Rightarrow> if truthy t then t else JStr ''Session'');
                       (exc, lib') =
                         write_stems b64decode host_open item_id stems_items (mkdir item_id lib)
                   in (case exc of
                         Some e \<Rightarrow> (Inl e, lib')
                       | None \<Rightarrow>
                           (let metadata = JDict
                                  [(''id'', JStr item_id),
                                   (''title'', title),
                                   (''stems'', JList (map (\<lambda>(stem_name, v). JStr stem_name) stems_items)),
                                   (''createdAt'', JStr (utcnow_iso @ ''Z'')),
                                   (''bundle'', JStr (''/api/library/'' @ item_id @ ''/bundle''))]
                            in (if renderable metadata then Inr metadata else Inl ValueError,
                                map_session item_id (write_meta metadata) lib'))))))"

text \<open>
  \<^verbatim>\<open>Path(name + ".wav").stem\<close>: the name without the suffix, except that the file
  \<^verbatim>\<open>.wav\<close> has no suffix and is its own stem.
\<close>

definition wav_stem :: "string \<Rightarrow> string" where
  "wav_stem stem_name = (if stem_name = [] then ''.wav'' else stem_name)"

text \<open>
  \<^verbatim>\<open>get_library_item\<close> (\<^verbatim>\<open>GET /api/library/{item_id}\<close>). The stems of the answer
  come from the \<^verbatim>\<open>*.wav\<close> files of the directory, in the order in which the directory
  enumerates them, not from the metadata.
\<close>

definition get_library_item ::
  "(string \<Rightarrow> string) \<Rightarrow> (string \<Rightarrow> nat) \<Rightarrow> string \<Rightarrow> library_root \<Rightarrow> error + json" where
  "get_library_item b64encode dir_rank item_id lib =
     (case map_of lib item_id of
        None \<Rightarrow> Inl (HTTPException 404 ''Session not found.'')
      | Some item_dir \<Rightarrow>
          (case meta_json item_dir of
             None \<Rightarrow> Inl (HTTPException 404 ''Session not found.'')
           | Some Unparseable \<Rightarrow> Inl JSONDecodeError
           | Some (Parsed metadata) \<Rightarrow>
               (let stems = foldl (\<lambda>acc (stem_name, data).
                               AList.update (wav_stem stem_name)
                                 (JStr (encode_audio_file b64encode data)) acc)
                             [] (sort_key (\<lambda>(stem_name, data). dir_rank stem_name) (wavs item_dir));
                    answer = JDict (AList.update ''stems'' (JDict stems) (dict_items metadata))
                in if \<not> is_dict metadata then Inl TypeError
                   else if renderable answer then Inr answer
                   else Inl ValueError)))"

text \<open>
  \<^verbatim>\<open>list_library\<close> (\<^verbatim>\<open>GET /api/library\<close>). The loop keeps the documents that
  parse. The key function \<^verbatim>\<open>item.get("createdAt", "")\<close> raises AttributeError on a
  document that is not an object. \<^verbatim>\<open>items.sort\<close> is a stable ascending sort on the
  keys: strings are compared code point by code point, numbers (and booleans, which are
  numbers) by value, and one item needs no comparison. A key that is \<^verbatim>\<open>NaN\<close> or
  infinite among numbers never makes the sort raise, and the record that holds it cannot
  be rendered afterwards. Keys that are all arrays are compared element by element, and
  whether that raises depends on the pairs that the sort compares: \<open>sort_by_arrays\<close>
  stands for what \<^verbatim>\<open>items.sort\<close> does then. Two or more keys of any other kinds make
  a comparison raise TypeError. The sorted list is rendered last.
\<close>

definition records :: "library_root \<Rightarrow> json list" where
  "records lib =
     concat (map (\<lambda>(item_id, d). case meta_json d of Some (Parsed data) \<Rightarrow> [data] | _ \<Rightarrow> [])
               lib)"

definition created_key :: "json \<Rightarrow> json" where
  "created_key item =
     (case map_of (dict_items item) ''createdAt'' of None \<Rightarrow> JStr [] | Some v \<Rightarrow> v)"

fun is_num :: "json \<Rightarrow> bool" where
  "is_num (JNum n) = True"
| "is_num (JBool b) = True"
| "is_num (JFloat q) = True"
| "is_num JNaN = True"
| "is_num (JInfinity positive) = True"
| "is_num v = False"

fun is_finite_num :: "json \<Rightarrow> bool" where
  "is_finite_num (JNum n) = True"
| "is_finite_num (JBool b) = True"
| "is_finite_num (JFloat q) = True"
| "is_finite_num v = False"

fun num_value :: "json \<Rightarrow> rat" where
  "num_value (JNum n) = of_int n"
| "num_value (JBool b) = (if b then 1 else 0)"
| "num_value (JFloat q) = q"
| "num_value v = 0"

fun is_list :: "json \<Rightarrow> bool" where
  "is_list (JList xs) = True"
| "is_list v = False"

definition sort_items :: "(json list \<Rightarrow> error + json list) \<Rightarrow> json list \<Rightarrow> error + json list" where
  "sort_items sort_by_arrays items =
     (if \<not> list_all is_dict items then Inl AttributeError
      else if list_all (\<lambda>item. is_str (created_key item)) items
        then Inr (sort_key (\<lambda>item. str_value (created_key item)) items)
      else if length items \<le> 1 then Inr items
      else if list_all (\<lambda>item. is_finite_num (created_key item)) items
        then Inr (sort_key (\<lambda>item. num_value (created_key item)) items)
      else if list_all (\<lambda>item. is_num (created_key item)) items then Inl ValueError
      else if list_all (\<lambda>item. is_list (created_key item)) items then sort_by_arrays items
      else Inl TypeError)"

definition list_library ::
  "(string \<Rightarrow> nat) \<Rightarrow> (json list \<Rightarrow> error + json list) \<Rightarrow> library_root \<Rightarrow> error + json list" where
  "list_library dir_rank sort_by_arrays lib =
     (case sort_items sort_by_arrays
             (records (sort_key (\<lambda>(item_id, d). dir_rank item_id) lib)) of
        Inl e \<Rightarrow> Inl e
      | Inr items \<Rightarrow> if list_all renderable items then Inr items else Inl ValueError)"

text \<open>\<^verbatim>\<open>download_bundle\<close> (\<^verbatim>\<open>GET /api/library/{item_id}/bundle\<close>).\<close>

definition download_bundle ::
  "string \<Rightarrow> library_root
     \<Rightarrow> error + (string \<times> string) list \<times> meta_file option" where
  "download_bundle item_id lib =
     (case (case map_of lib item_id of None \<Rightarrow> None | Some d \<Rightarrow> bundle_zip d) of
        None \<Rightarrow> Inl (HTTPException 404 ''Bundle not found'')
      | Some z \<Rightarrow> Inr z)"

text \<open>
  A stem name for which \<^verbatim>\<open>item_dir / f"{name}.wav"\<close> is a file of the session
  directory that the file system accepts: no slash, no NUL, and with \<^verbatim>\<open>.wav\<close> not
  longer than \<^verbatim>\<open>NAME_MAX\<close>.
\<close>

definition plain_name :: "string \<Rightarrow> bool" where
  "plain_name n \<longleftrightarrow> CHR ''/'' \<notin> set n \<and> CHR 0x00 \<notin> set n \<and> length n + 4 \<le> NAME_MAX"

text \<open>The library without the stem files: every session with its metadata and bundle.\<close>

definition without_wavs ::
  "library_root
     \<Rightarrow> (string \<times> meta_file option \<times> ((string \<times> string) list \<times> meta_file option) option) list" where
  "without_wavs lib = map (\<lambda>(i, d). (i, meta_json d, bundle_zip d)) lib"

text \<open>The records that parse, read from the library without its stem files.\<close>

definition meta_records :: "(string \<times> meta_file option \<times> 'b) list \<Rightarrow> json list" where
  "meta_records xs =
     concat (map (\<lambda>(i, m, b). case m of Some (Parsed data) \<Rightarrow> [data] | _ \<Rightarrow> []) xs)"

subsection \<open>Separation\<close>

definition VIDEO_EXTENSIONS :: "string list" where
  "VIDEO_EXTENSIONS =
     [''.mp4'', ''.mov'', ''.m4v'', ''.mkv'', ''.webm'', ''.avi'', ''.mpg'', ''.mpeg'']"

definition EXPECTED_STEMS :: "string list" where
  "EXPECTED_STEMS = [''vocals'', ''drums'', ''bass'', ''other'']"

text \<open>
  The request's temporary directory: a path, as \<^verbatim>\<open>pathlib\<close> writes it relative to
  the directory, leads to a file with its bytes, to a directory, or to nothing.
\<close>

datatype node = File string | Dir

type_synonym tmpfs = "string \<rightharpoonup> node"

text \<open>
  \<^verbatim>\<open>stream_copy_to_path(file, tmp_dir_path / file.filename)\<close> into the new, empty
  temporary directory: the path of the copy and the directory with the copy in it, or the
  exception of \<^verbatim>\<open>destination.open("wb")\<close>, which the handler does not catch. A file
  name of one part is created in the directory; a path through a directory that is not
  there fails; a path that leaves the directory is up to the host.
\<close>

definition stream_copy_to_path ::
  "(string \<Rightarrow> bool) \<Rightarrow> string \<Rightarrow> string \<Rightarrow> error + string \<times> tmpfs" where
  "stream_copy_to_path host_open fname data =
     (let ps = path_parts fname;
          destination = path_str fname
      in if CHR 0x00 \<in> set fname then Inl ValueError
         else if ps = [] \<or> last ps = ''..'' then Inl OSError
         else if is_absolute fname \<or> hd ps = ''..'' then
           (if host_open destination then Inr (destination, [destination \<mapsto> File data])
            else Inl OSError)
         else if length ps = 1 \<and> length (hd ps) \<le> NAME_MAX
           then Inr (destination, [destination \<mapsto> File data])
         else Inl OSError)"

text \<open>
  The outside collaborators are parameters. \<open>ffmpeg_run input output fs\<close> is the run of
  \<^verbatim>\<open>ffmpeg.input(input).output(output, ac=2, ar=44100, format="wav")\<close>: it returns
  with the directory as it leaves it, raises \<^verbatim>\<open>ffmpeg.Error\<close>, or raises something
  else (the program cannot be started), which the handler does not catch.
  \<open>Separator model\<close> builds the Spleeter handle and \<open>separate_to_file h source fs\<close> runs the
  model on \<open>source\<close> inside the directory; both return or raise (\<open>Raises\<close> holds the text
  of the exception).
\<close>

datatype ffmpeg_outcome = Converted tmpfs | FfmpegError string | FfmpegNotRun

datatype 'a outcome = Returns 'a | Raises string

text \<open>
  The calls to the collaborators, in order: the conversion with its input and output
  paths, the separation with its source path and what the directory holds there. A call
  and its entry in the list are made together.
\<close>

datatype event = FfmpegRun string string | SeparateToFile string "node option"

definition call_ffmpeg ::
  "(string \<Rightarrow> string \<Rightarrow> tmpfs \<Rightarrow> ffmpeg_outcome) \<Rightarrow> string \<Rightarrow> string \<Rightarrow> tmpfs
     \<Rightarrow> ffmpeg_outcome \<times> event list" where
  "call_ffmpeg ffmpeg_run input_path audio_path fs =
     (ffmpeg_run input_path audio_path fs, [FfmpegRun input_path audio_path])"

definition call_separate_to_file ::
  "('h \<Rightarrow> string \<Rightarrow> tmpfs \<Rightarrow> tmpfs outcome) \<Rightarrow> 'h \<Rightarrow> string \<Rightarrow> tmpfs
     \<Rightarrow> tmpfs outcome \<times> event list" where
  "call_separate_to_file separate_to_file h process_source fs =
     (separate_to_file h process_source fs, [SeparateToFile process_source (fs process_source)])"

record upload_file =
  filename :: "string option"
  content :: string

record separate_response =
  response_model :: string
  response_stems :: "(string \<times> string) list"

definition get_separator ::
  "(string \<Rightarrow> 'h outcome) \<Rightarrow> string \<Rightarrow> (string \<rightharpoonup> 'h) \<Rightarrow> (error + 'h) \<times> (string \<rightharpoonup> 'h)" where
  "get_separator Separator model cache =
     (case cache model of
        Some h \<Rightarrow> (Inr h, cache)
      | None \<Rightarrow>
          (case Separator model of
             Raises exc \<Rightarrow>
               (Inl (HTTPException 500
                  (''Could not initialize Spleeter model '' @ [CHR 0x27] @ model @ [CHR 0x27]
                     @ '': '' @ exc)), cache)
           | Returns h \<Rightarrow> (Inr h, cache(model \<mapsto> h))))"

text \<open>
  The conversion block of \<^verbatim>\<open>separate\<close>: the path that will be separated, the
  directory, and the calls made.
\<close>

definition extract_audio ::
  "(string \<Rightarrow> string \<Rightarrow> tmpfs \<Rightarrow> ffmpeg_outcome) \<Rightarrow> string \<Rightarrow> tmpfs
     \<Rightarrow> (error + string \<times> tmpfs) \<times> event list" where
  "extract_audio ffmpeg_run input_path fs =
     (if lower (path_suffix input_path) \<in> set VIDEO_EXTENSIONS then
        (let audio_path = path_stem input_path @ ''_audio.wav''
         in (case call_ffmpeg ffmpeg_run input_path audio_path fs of
               (Converted fs', events) \<Rightarrow> (Inr (audio_path, fs'), events)
             | (FfmpegError exc, events) \<Rightarrow>
                 (Inl (HTTPException 500 (''Could not extract audio from video: '' @ exc)),
                  events)
             | (FfmpegNotRun, events) \<Rightarrow> (Inl OSError, events)))
      else (Inr (input_path, fs), []))"

text \<open>
  The loop over \<^verbatim>\<open>EXPECTED_STEMS\<close>: a path that exists is read and encoded
  (\<^verbatim>\<open>read_bytes\<close> raises on a directory), a path that does not exist is passed over.
\<close>

fun collect_stems ::
  "(string \<Rightarrow> string) \<Rightarrow> tmpfs \<Rightarrow> string \<Rightarrow> string list \<Rightarrow> error + (string \<times> string) list" where
  "collect_stems b64encode fs stems_dir [] = Inr []"
| "collect_stems b64encode fs stems_dir (stem_name # rest) =
     (case fs (stems_dir @ ''/'' @ stem_name @ ''.wav'') of
        None \<Rightarrow> collect_stems b64encode fs stems_dir rest
      | Some Dir \<Rightarrow> Inl OSError
      | Some (File data) \<Rightarrow>
          (case collect_stems b64encode fs stems_dir rest of
             Inl e \<Rightarrow> Inl e
           | Inr found \<Rightarrow> Inr ((stem_name, encode_audio_file b64encode data) # found)))"

text \<open>
  The end of \<^verbatim>\<open>separate\<close>, from \<^verbatim>\<open>stems_dir\<close> on: the answer made from the
  directory that the separation leaves.
\<close>

definition collect_response ::
  "(string \<Rightarrow> string) \<Rightarrow> tmpfs \<Rightarrow> string \<Rightarrow> string \<Rightarrow> error + separate_response" where
  "collect_response b64encode fs fname model =
     (let stems_dir = path_stem fname
      in if fs stems_dir = None then
           Inl (HTTPException 500 ''Stem service did not produce any files.'')
         else
           (case collect_stems b64encode fs stems_dir EXPECTED_STEMS of
              Inl e \<Rightarrow> Inl e
            | Inr stems \<Rightarrow>
                if stems = [] then
                  Inl (HTTPException 500 ''No stems were generated by Spleeter.'')
                else Inr \<lparr>response_model = model, response_stems = stems\<rparr>))"

text \<open>
  \<^verbatim>\<open>separate\<close> (\<^verbatim>\<open>POST /api/separate\<close>). The result is the answer, the cache of
  separators and the calls made to the collaborators. The temporary directory is gone
  when the handler returns.
\<close>

definition separate ::
  "(string \<Rightarrow> string) \<Rightarrow> (string \<Rightarrow> bool) \<Rightarrow> (string \<Rightarrow> string \<Rightarrow> tmpfs \<Rightarrow> ffmpeg_outcome)
     \<Rightarrow> (string \<Rightarrow> 'h outcome) \<Rightarrow> ('h \<Rightarrow> string \<Rightarrow> tmpfs \<Rightarrow> tmpfs outcome) \<Rightarrow> upload_file \<Rightarrow> string
     \<Rightarrow> (string \<rightharpoonup> 'h) \<Rightarrow> (error + separate_response) \<times> (string \<rightharpoonup> 'h) \<times> event list" where
  "separate b64encode host_open ffmpeg_run Separator separate_to_file file model cache =
     (case filename file of
        None \<Rightarrow> (Inl (HTTPException 400 ''Upload must include a filename.''), cache, [])
      | Some fname \<Rightarrow>
          if fname = [] then
            (Inl (HTTPException 400 ''Upload must include a filename.''), cache, [])
          else
            (case stream_copy_to_path host_open fname (content file) of
               Inl e \<Rightarrow> (Inl e, cache, [])
             | Inr (input_path, fs0) \<Rightarrow>
                 (case extract_audio ffmpeg_run input_path fs0 of
                    (Inl e, events) \<Rightarrow> (Inl e, cache, events)
                  | (Inr (process_source, fs1), events) \<Rightarrow>
                      (case get_separator Separator model cache of
                         (Inl e, cache') \<Rightarrow> (Inl e, cache', events)
                       | (Inr separator, cache') \<Rightarrow>
                           (case call_separate_to_file separate_to_file separator
                                   process_source fs1 of
                              (Raises exc, events') \<Rightarrow>
                                (Inl (HTTPException 500 (''Stem separation failed: '' @ exc)),
                                 cache', events @ events')
                            | (Returns fs2, events') \<Rightarrow>
                                (collect_response b64encode fs2 fname model, cache',
                                 events @ events'))))))"

subsection \<open>Collaborators of the examples\<close>

text \<open>
  Stand-ins for the parameters, used where a statement is evaluated on a concrete request:
  a decoder that knows one text, a decoder and a host that refuse everything, an encoder,
  an enumeration order, and collaborators of \<^verbatim>\<open>separate\<close> (an ffmpeg that writes the
  audio file or fails, a separator that writes a vocals stem next to a source that holds
  the converted audio or an upload).
\<close>

definition example_b64decode :: "string \<Rightarrow> string + string" where
  "example_b64decode s = (if s = ''QUJD'' then Inr ''ABC'' else Inl ''Incorrect padding'')"

definition refuse_b64decode :: "string \<Rightarrow> string + string" where
  "refuse_b64decode s = Inl ''Incorrect padding''"

definition example_b64encode :: "string \<Rightarrow> string" where
  "example_b64encode b = (if b = ''V'' then ''Vg=='' else ''QUJD'')"

definition refuse_host_open :: "string \<Rightarrow> bool" where
  "refuse_host_open p = False"

definition example_dir_rank :: "string \<Rightarrow> nat" where
  "example_dir_rank n = length n"

definition refuse_sort_by_arrays :: "json list \<Rightarrow> error + json list" where
  "refuse_sort_by_arrays items = Inl TypeError"

definition example_ffmpeg_run :: "string \<Rightarrow> string \<Rightarrow> tmpfs \<Rightarrow> ffmpeg_outcome" where
  "example_ffmpeg_run input_path audio_path fs = Converted (fs(audio_path \<mapsto> File ''RIFF''))"

definition failing_ffmpeg_run :: "string \<Rightarrow> string \<Rightarrow> tmpfs \<Rightarrow> ffmpeg_outcome" where
  "failing_ffmpeg_run input_path audio_path fs = FfmpegError ''moov atom not found''"

definition example_Separator :: "string \<Rightarrow> nat outcome" where
  "example_Separator model = Returns 0"

definition example_separate_to_file :: "nat \<Rightarrow> string \<Rightarrow> tmpfs \<Rightarrow> tmpfs outcome" where
  "example_separate_to_file h process_source fs =
     (if fs process_source = Some (File ''RIFF'') then
        Returns (fs(''Clip'' \<mapsto> Dir, ''Clip/vocals.wav'' \<mapsto> File ''V''))
      else if fs process_source = Some (File ''mp3 bytes'') then
        Returns (fs(''song'' \<mapsto> Dir, ''song/vocals.wav'' \<mapsto> File ''V''))
      else Raises ''no audio'')"

definition silent_separate_to_file :: "nat \<Rightarrow> string \<Rightarrow> tmpfs \<Rightarrow> tmpfs outcome" where
  "silent_separate_to_file h process_source fs =
     Returns (fs(''song'' \<mapsto> Dir, ''song/piano.wav'' \<mapsto> File ''P''))"

section \<open>Properties\<close>

lemmas string_eval = normalize_email_def strip_def lower_def lower_char_def isspace_def

subsection \<open>Verification codes\<close>

text \<open>
  C1. While a code is pending for an email and its expiry has not passed, redeeming with
  the stored code succeeds, returns the entry and deletes it; redeeming again for the same
  email with the same code, at any time, finds no entry and fails with status 400 and the
  detail ``No verification code requested for this email.'' (the spec's NotFound), leaving
  the table as it is.
\<close>

theorem pop_verification_code_single_use:
  assumes "pc (normalize_email em) = Some ent"
    and "utcnow \<le> expires ent"
    and "code ent = c"
  shows "pop_verification_code utcnow em c pc = (Inr ent, pc(normalize_email em := None))
       \<and> pop_verification_code utcnow' em c (pc(normalize_email em := None)) =
          (Inl (HTTPException 400 ''No verification code requested for this email.''),
           pc(normalize_email em := None))"
  using assms by (simp add: pop_verification_code_def)

theorem pop_verification_code_single_use_witness:
  "pop_verification_code 600000000 '' User@Example.com'' ''004217''
      (store_verification_code 0 ''user@example.com'' ''004217'' Map.empty) =
     (Inr \<lparr>code = ''004217'', expires = 600000000\<rparr>, Map.empty)
   \<and> pop_verification_code 600000001 '' User@Example.com'' ''004217'' Map.empty =
     (Inl (HTTPException 400 ''No verification code requested for this email.''), Map.empty)"
  using pop_verification_code_single_use
    [of "store_verification_code 0 ''user@example.com'' ''004217'' Map.empty"
      "'' User@Example.com''" "\<lparr>code = ''004217'', expires = 600000000\<rparr>" 600000000
      "''004217''" 600000001]
  by (simp add: string_eval store_verification_code_def CODE_TTL_def)

text \<open>
  C2. When the clock is strictly after the stored expiry of a pending code, redemption
  fails with ``Verification code has expired.'' (status 400, the spec's Expired) whatever
  code is submitted, the stored code included: the expiry check comes before the
  comparison of the codes. The stored expiry is the issue time plus ten minutes.
\<close>

theorem pop_verification_code_expired_first:
  assumes "pc (normalize_email em) = Some ent"
    and "utcnow > expires ent"
  shows "pop_verification_code utcnow em (code ent) pc =
           (Inl (HTTPException 400 ''Verification code has expired.''), pc)
       \<and> (\<forall>c. pop_verification_code utcnow em c pc =
           (Inl (HTTPException 400 ''Verification code has expired.''), pc))
       \<and> store_verification_code t0 em0 c0 pc0 (normalize_email em0) =
           Some \<lparr>code = c0, expires = t0 + 10 * 60 * 1000000\<rparr>"
  using assms
  by (simp add: pop_verification_code_def store_verification_code_def CODE_TTL_def)

theorem pop_verification_code_expired_first_witness:
  "pop_verification_code 600000001 ''user@example.com'' ''004217''
      (store_verification_code 0 ''user@example.com'' ''004217'' Map.empty) =
     (Inl (HTTPException 400 ''Verification code has expired.''),
      store_verification_code 0 ''user@example.com'' ''004217'' Map.empty)"
  using pop_verification_code_expired_first
    [of "store_verification_code 0 ''user@example.com'' ''004217'' Map.empty"
      "''user@example.com''" "\<lparr>code = ''004217'', expires = 600000000\<rparr>" 600000001]
  by (simp add: string_eval store_verification_code_def CODE_TTL_def)

text \<open>
  C3, as the claim states it, fails when the code issued second equals the pending one
  (\<^verbatim>\<open>generate_code\<close> draws each code independently, and nothing compares the new
  code with the old): the old code is then still redeemable.
\<close>

theorem reissued_code_counterexample:
  "fst (pop_verification_code 0 ''a@b.c'' ''123456''
     (store_verification_code 0 ''a@b.c'' ''123456''
       (store_verification_code 0 ''a@b.c'' ''123456'' Map.empty))) =
     Inr \<lparr>code = ''123456'', expires = CODE_TTL\<rparr>"
  by (simp add: pop_verification_code_def store_verification_code_def CODE_TTL_def)

text \<open>
  C3, amended. The table holds one entry per normalized email: issuing a new code for an
  email that has a pending code replaces the entry by the new code and the new expiry.
  When the new code differs from the old one, redeeming the old code afterwards fails,
  with ``Verification code has expired.'' past the new expiry and with
  ``Invalid verification code.'' (the spec's Mismatch) otherwise, and the new entry stays.
\<close>

theorem store_verification_code_replaces:
  assumes "c_old \<noteq> c_new"
  shows "store_verification_code t1 em c_new (store_verification_code t0 em c_old pc)
           (normalize_email em) = Some \<lparr>code = c_new, expires = t1 + CODE_TTL\<rparr>
       \<and> pop_verification_code utcnow em c_old
           (store_verification_code t1 em c_new (store_verification_code t0 em c_old pc)) =
          (Inl (HTTPException 400
                 (if utcnow > t1 + CODE_TTL then ''Verification code has expired.''
                  else ''Invalid verification code.'')),
           store_verification_code t1 em c_new (store_verification_code t0 em c_old pc))"
  using assms by (simp add: pop_verification_code_def store_verification_code_def)

theorem store_verification_code_replaces_witness:
  "pop_verification_code 5 ''a@b.c'' ''123456''
     (store_verification_code 1 ''a@b.c'' ''654321''
       (store_verification_code 0 ''a@b.c'' ''123456'' Map.empty)) =
     (Inl (HTTPException 400 ''Invalid verification code.''),
      [''a@b.c'' \<mapsto> \<lparr>code = ''654321'', expires = 600000001\<rparr>])"
  using store_verification_code_replaces
    [of "''123456''" "''654321''" 1 "''a@b.c''" 0 Map.empty 5]
  by (simp add: string_eval store_verification_code_def CODE_TTL_def)

text \<open>
  C4. A verify request that fails on a wrong code answers 400 ``Invalid verification
  code.'' and leaves the whole state, the pending entry included, as it was. A verify
  request for the same email that then submits the stored code before the expiry, with a
  password, succeeds: it returns the account summary with that email and a non-empty
  \<^verbatim>\<open>createdAt\<close>, and consumes the entry.
\<close>

theorem verify_code_after_mismatch:
  assumes "em \<noteq> []"
    and "PENDING_CODES s (normalize_email em) = Some ent"
    and "strip (get_or_empty p1 ''email'') = em"
    and "strip (get_or_empty p2 ''email'') = em"
    and "strip (get_or_empty p1 ''code'') \<noteq> []"
    and "strip (get_or_empty p1 ''code'') \<noteq> code ent"
    and "strip (get_or_empty p2 ''code'') = code ent"
    and "code ent \<noteq> []"
    and "get_or_empty p1 ''password'' \<noteq> []"
    and "get_or_empty p2 ''password'' \<noteq> []"
    and "t1 \<le> expires ent"
    and "t2 \<le> expires ent"
  shows "verify_code H t1 iso1 p1 s =
           (Inl (HTTPException 400 ''Invalid verification code.''), s)
       \<and> (\<exists>summary s'. verify_code H t2 iso2 p2 s = (Inr summary, s')
             \<and> email summary = em
             \<and> (\<exists>c. createdAt summary = Some c \<and> c \<noteq> [])
             \<and> PENDING_CODES s' (normalize_email em) = None)"
  using assms
  by (auto simp add: verify_code_def pop_verification_code_def record_account_def Let_def
        save_accounts_def split: option.splits)

text \<open>
  The scenario of the spec: a code is requested for \<^verbatim>\<open>user@example.com\<close> (the draw is
  123456), a verify with the code 000000 is refused, a verify with 123456 and a password
  succeeds.
\<close>

theorem verify_code_after_mismatch_witness:
  "snd (request_code 123456 0 [''email'' \<mapsto> ''user@example.com'']
          \<lparr>accounts = Map.empty, accounts_json = None, PENDING_CODES = Map.empty\<rparr>) =
     \<lparr>accounts = Map.empty, accounts_json = None,
      PENDING_CODES = [''user@example.com'' \<mapsto> \<lparr>code = ''123456'', expires = 600000000\<rparr>]\<rparr>
   \<and> fst (verify_code id 1 ''2024-01-01T00:00:00.000001''
          [''email'' \<mapsto> ''user@example.com'', ''code'' \<mapsto> ''000000'', ''password'' \<mapsto> ''pw'']
          \<lparr>accounts = Map.empty, accounts_json = None,
           PENDING_CODES =
             [''user@example.com'' \<mapsto> \<lparr>code = ''123456'', expires = 600000000\<rparr>]\<rparr>) =
       Inl (HTTPException 400 ''Invalid verification code.'')
   \<and> (\<exists>summary s'.
        verify_code id 2 ''2024-01-01T00:00:00.000002''
          [''email'' \<mapsto> ''user@example.com'', ''code'' \<mapsto> ''123456'', ''password'' \<mapsto> ''pw'']
          \<lparr>accounts = Map.empty, accounts_json = None,
           PENDING_CODES =
             [''user@example.com'' \<mapsto> \<lparr>code = ''123456'', expires = 600000000\<rparr>]\<rparr> =
          (Inr summary, s')
        \<and> email summary = ''user@example.com''
        \<and> (\<exists>c. createdAt summary = Some c \<and> c \<noteq> []))"
proof -
  let ?s = "\<lparr>accounts = Map.empty, accounts_json = None,
             PENDING_CODES =
               [''user@example.com'' \<mapsto> \<lparr>code = ''123456'', expires = 600000000\<rparr>]\<rparr>"
  have req: "snd (request_code 123456 0 [''email'' \<mapsto> ''user@example.com'']
      \<lparr>accounts = Map.empty, accounts_json = None, PENDING_CODES = Map.empty\<rparr>) = ?s"
    by (simp add: request_code_def get_or_empty_def string_eval store_verification_code_def
        CODE_TTL_def generate_code_def digit_char_def)
  have "verify_code id 1 ''2024-01-01T00:00:00.000001''
          [''email'' \<mapsto> ''user@example.com'', ''code'' \<mapsto> ''000000'', ''password'' \<mapsto> ''pw'']
          ?s = (Inl (HTTPException 400 ''Invalid verification code.''), ?s)
      \<and> (\<exists>summary s'.
           verify_code id 2 ''2024-01-01T00:00:00.000002''
             [''email'' \<mapsto> ''user@example.com'', ''code'' \<mapsto> ''123456'', ''password'' \<mapsto> ''pw'']
             ?s = (Inr summary, s')
           \<and> email summary = ''user@example.com''
           \<and> (\<exists>c. createdAt summary = Some c \<and> c \<noteq> [])
           \<and> PENDING_CODES s' (normalize_email ''user@example.com'') = None)"
    by (rule verify_code_after_mismatch
          [where ent = "\<lparr>code = ''123456'', expires = 600000000\<rparr>"])
       (simp_all add: get_or_empty_def string_eval)
  with req show ?thesis by auto
qed

subsection \<open>Accounts\<close>

text \<open>
  C5. Two calls of \<^verbatim>\<open>record_account\<close> for emails with the same normalized key: the
  first call leaves a creation timestamp, the second call keeps exactly that timestamp
  and overwrites the name, the password hash and the update timestamp (its own clock
  reading); the table holds the second record under the key.
\<close>

theorem record_account_keeps_createdAt:
  assumes "normalize_email e2 = normalize_email e1"
  shows "let (a1, s1) = record_account iso1 e1 n1 h1 s;
             (a2, s2) = record_account iso2 e2 n2 h2 s1
         in a1 ''createdAt'' \<noteq> None
          \<and> a2 ''createdAt'' = a1 ''createdAt''
          \<and> a2 ''name'' = Some n2
          \<and> a2 ''passwordHash'' = Some h2
          \<and> a2 ''updatedAt'' = Some (iso2 @ ''Z'')
          \<and> accounts s2 (normalize_email e1) = Some a2"
  using assms
  by (auto simp add: record_account_def Let_def save_accounts_def split: option.splits)

theorem record_account_keeps_createdAt_witness:
  "(let (a1, s1) = record_account ''2024-01-01T00:00:00'' ''User@Example.com'' ''Ann'' ''h1''
                     \<lparr>accounts = Map.empty, accounts_json = None, PENDING_CODES = Map.empty\<rparr>;
        (a2, s2) = record_account ''2024-06-01T12:30:00'' '' user@example.COM '' ''Bob'' ''h2'' s1
    in a1 ''createdAt'' = Some ''2024-01-01T00:00:00Z''
     \<and> a2 ''createdAt'' = Some ''2024-01-01T00:00:00Z''
     \<and> a2 ''name'' = Some ''Bob''
     \<and> a2 ''passwordHash'' = Some ''h2''
     \<and> a2 ''updatedAt'' = Some ''2024-06-01T12:30:00Z'')"
  using record_account_keeps_createdAt
    [of "'' user@example.COM ''" "''User@Example.com''" "''2024-01-01T00:00:00''" "''Ann''"
      "''h1''" "\<lparr>accounts = Map.empty, accounts_json = None, PENDING_CODES = Map.empty\<rparr>"
      "''2024-06-01T12:30:00''" "''Bob''" "''h2''"]
  by (simp add: record_account_def Let_def save_accounts_def string_eval)

subsection \<open>Library\<close>

lemmas path_eval = path_parts_def path_str_def path_name_def path_suffix_def path_stem_def
  is_absolute_def NAME_MAX_def

lemmas lib_eval = save_library_def mkdir_def empty_dir_def Let_def map_session_def write_meta_def
  write_bytes_def write_wav_def path_eval decode_data_url_def partition_comma_def strip_def
  isspace_def get_library_item_def download_bundle_def list_library_def records_def
  sort_items_def created_key_def example_b64decode_def refuse_b64decode_def
  example_b64encode_def refuse_host_open_def example_dir_rank_def refuse_sort_by_arrays_def
  plain_name_def

lemma split_on_absent: "c \<notin> set s \<Longrightarrow> split_on c s = [s]"
  by (induction s) auto

lemma plain_name_parts:
  assumes "plain_name n"
  shows "path_parts (n @ ''.wav'') = [n @ ''.wav'']"
    and "\<not> is_absolute (n @ ''.wav'')"
    and "CHR 0x00 \<notin> set (n @ ''.wav'')"
    and "length (n @ ''.wav'') \<le> NAME_MAX"
proof -
  from assms have "CHR ''/'' \<notin> set (n @ ''.wav'')" by (simp add: plain_name_def)
  then have "split_on CHR ''/'' (n @ ''.wav'') = [n @ ''.wav'']" by (rule split_on_absent)
  moreover have "n @ ''.wav'' \<noteq> ''.''" by (cases n) auto
  ultimately show "path_parts (n @ ''.wav'') = [n @ ''.wav'']" by (simp add: path_parts_def)
  show "\<not> is_absolute (n @ ''.wav'')"
    using assms by (cases n) (auto simp: is_absolute_def plain_name_def)
  show "CHR 0x00 \<notin> set (n @ ''.wav'')" using assms by (simp add: plain_name_def)
  show "length (n @ ''.wav'') \<le> NAME_MAX" using assms by (simp add: plain_name_def)
qed

lemma write_bytes_plain:
  assumes "plain_name n"
  shows "write_bytes H i (n @ ''.wav'') data lib =
           Inr (map_session i (write_wav (n @ ''.wav'') data) lib)"
  using plain_name_parts [OF assms]
  by (simp add: write_bytes_def Let_def)

lemma without_wavs_map_session:
  assumes "\<And>d. meta_json (f d) = meta_json d" and "\<And>d. bundle_zip (f d) = bundle_zip d"
  shows "without_wavs (map_session i f lib) = without_wavs lib"
  using assms by (induction lib) (auto simp: without_wavs_def map_session_def)

lemma write_bytes_without_wavs:
  "write_bytes H i t data lib = Inr lib' \<Longrightarrow> without_wavs lib' = without_wavs lib"
  by (auto simp: write_bytes_def Let_def write_wav_def without_wavs_map_session
      split: if_splits option.splits place.splits)

lemma write_bytes_status:
  "write_bytes H i t data lib = Inl e \<Longrightarrow> status_code e = 500"
  by (auto simp: write_bytes_def Let_def split: if_splits option.splits place.splits)

lemma write_stems_without_wavs:
  "write_stems D H i stems lib = (exc, lib') \<Longrightarrow> without_wavs lib' = without_wavs lib"
proof (induction D H i stems lib arbitrary: exc lib' rule: write_stems.induct)
  case (1 D H i lib)
  then show ?case by simp
next
  case (2 D H i stem_name v rest lib)
  show ?case
  proof (cases "is_str v")
    case False
    with 2 show ?thesis by simp
  next
    case True
    show ?thesis
    proof (cases "decode_data_url D (str_value v)")
      case (Inl msg)
      with True 2 show ?thesis by simp
    next
      case (Inr data)
      show ?thesis
      proof (cases "write_bytes H i (stem_name @ ''.wav'') data lib")
        case (Inl e)
        with True Inr 2 show ?thesis by simp
      next
        case Inr': (Inr lib1)
        from 2(2) [OF _ Inr Inr'] True 2(3) Inr Inr'
        have "without_wavs lib' = without_wavs lib1" by simp
        with write_bytes_without_wavs [OF Inr'] show ?thesis by simp
      qed
    qed
  qed
qed

lemma write_stems_failure:
  assumes "(n, JStr v) \<in> set stems"
    and "decode_data_url D v = Inl msg"
  shows "\<exists>e lib'. write_stems D H i stems lib = (Some e, lib')
           \<and> (status_code e = 400 \<or> status_code e = 500)
           \<and> (list_all (\<lambda>(m, u). plain_name m) stems \<longrightarrow> (\<exists>detail. e = HTTPException 400 detail))"
  using assms
proof (induction stems arbitrary: lib)
  case Nil
  then show ?case by simp
next
  case (Cons a stems)
  obtain m x where a: "a = (m, x)" by (cases a)
  have step: ?case
    if mem: "(n, JStr v) \<in> set stems"
      and eq: "write_stems D H i (a # stems) lib = write_stems D H i stems lib1" for lib1
  proof -
    obtain e lib' where r: "write_stems D H i stems lib1 = (Some e, lib')"
      and s: "status_code e = 400 \<or> status_code e = 500"
      and p: "list_all (\<lambda>(m, u). plain_name m) stems \<longrightarrow> (\<exists>detail. e = HTTPException 400 detail)"
      using Cons.IH [OF mem Cons.prems(2), of lib1] by blast
    have "write_stems D H i (a # stems) lib = (Some e, lib')
        \<and> (status_code e = 400 \<or> status_code e = 500)
        \<and> (list_all (\<lambda>(m, u). plain_name m) (a # stems) \<longrightarrow>
             (\<exists>detail. e = HTTPException 400 detail))"
      using eq r s p by simp
    then show ?thesis by blast
  qed
  show ?case
  proof (cases "is_str x")
    case False
    with Cons.prems a have "(n, JStr v) \<in> set stems" by auto
    then show ?thesis by (rule step) (use False a in simp)
  next
    case True
    then obtain u where x: "x = JStr u" by (cases x) auto
    show ?thesis
    proof (cases "decode_data_url D u")
      case (Inl e)
      with a x show ?thesis by simp
    next
      case (Inr data)
      with Cons.prems a x have mem: "(n, JStr v) \<in> set stems" by auto
      show ?thesis
      proof (cases "write_bytes H i (m @ ''.wav'') data lib")
        case (Inl e)
        then have "status_code e = 500" by (rule write_bytes_status)
        moreover have "\<not> plain_name m"
          using Inl write_bytes_plain [of m H i data lib] by auto
        ultimately show ?thesis using a x Inr Inl by simp
      next
        case Inr': (Inr lib1)
        show ?thesis by (rule step [OF mem]) (use a x Inr Inr' in simp)
      qed
    qed
  qed
qed

lemma write_stems_skip:
  "write_stems D H i stems lib = write_stems D H i (filter (\<lambda>(n, v). is_str v) stems) lib"
  by (induction D H i stems lib rule: write_stems.induct) (auto split: sum.splits)

lemma write_stems_no_str:
  "list_all (\<lambda>(n, v). \<not> is_str v) stems \<Longrightarrow> write_stems D H i stems lib = (None, lib)"
  by (induction stems arbitrary: lib) auto


lemma insort_key_map:
  assumes "\<And>y. k' y = k (g y)"
  shows "map g (insort_key k' x xs) = insort_key k (g x) (map g xs)"
  using assms by (induction xs) auto

lemma sort_key_map:
  assumes "\<And>y. k' y = k (g y)"
  shows "map g (sort_key k' xs) = sort_key k (map g xs)"
  by (induction xs) (auto simp: insort_key_map [of k' k g, OF assms])

lemma records_without_wavs: "records lib = meta_records (without_wavs lib)"
  by (induction lib) (auto simp: records_def meta_records_def without_wavs_def)

lemma without_wavs_sort:
  "without_wavs (sort_key (\<lambda>(i, d). r i) lib) = sort_key (\<lambda>(i, m). r i) (without_wavs lib)"
  unfolding without_wavs_def by (rule sort_key_map) auto

lemma meta_records_filter:
  "meta_records xs = meta_records (filter (\<lambda>(i, m, b). m \<noteq> None) xs)"
  by (induction xs) (auto simp: meta_records_def)

lemma meta_records_sort_snoc:
  "meta_records (sort_key k (xs @ [(i, None, b)])) = meta_records (sort_key k xs)"
proof -
  have "meta_records (sort_key k (xs @ [(i, None, b)])) =
      meta_records (filter (\<lambda>(i, m, b). m \<noteq> None) (sort_key k (xs @ [(i, None, b)])))"
    by (rule meta_records_filter)
  also have "\<dots> = meta_records (sort_key k (filter (\<lambda>(i, m, b). m \<noteq> None) xs))"
    by (simp add: filter_sort)
  also have "\<dots> = meta_records (filter (\<lambda>(i, m, b). m \<noteq> None) (sort_key k xs))"
    by (simp add: filter_sort)
  also have "\<dots> = meta_records (sort_key k xs)"
    by (rule meta_records_filter [symmetric])
  finally show ?thesis .
qed

lemma without_wavs_mkdir:
  "without_wavs (mkdir i lib) =
     (if map_of lib i = None then without_wavs lib @ [(i, None, None)] else without_wavs lib)"
  by (simp add: mkdir_def without_wavs_def empty_dir_def)

lemma list_library_without_wavs:
  assumes "without_wavs lib' = without_wavs (mkdir i lib)"
  shows "list_library r arr lib' = list_library r arr lib"
proof -
  have "records (sort_key (\<lambda>(i, d). r i) lib') = records (sort_key (\<lambda>(i, d). r i) lib)"
    using assms
    by (simp add: records_without_wavs without_wavs_sort without_wavs_mkdir meta_records_sort_snoc)
  then show ?thesis by (simp add: list_library_def)
qed

lemma map_of_without_wavs:
  "map_of (without_wavs lib) j = map_option (\<lambda>d. (meta_json d, bundle_zip d)) (map_of lib j)"
  by (induction lib) (auto simp: without_wavs_def)

lemma meta_of_mkdir:
  "map_of (without_wavs (mkdir i lib)) j =
     (if j = i \<and> map_of lib i = None then Some (None, None) else map_of (without_wavs lib) j)"
  by (auto simp: without_wavs_mkdir map_of_without_wavs map_add_def split: option.splits)

lemma map_of_map_session:
  "map_of (map_session i f lib) j = (if j = i then map_option f (map_of lib i) else map_of lib j)"
  by (induction lib) (auto simp: map_session_def)

lemma map_of_lib_iff: "map_of lib j = None \<longleftrightarrow> map_of (without_wavs lib) j = None"
  by (simp add: map_of_without_wavs)

lemma list_all_records:
  "list_all P (records lib) \<longleftrightarrow>
     (\<forall>(i, d) \<in> set lib. \<forall>data. meta_json d = Some (Parsed data) \<longrightarrow> P data)"
  by (induction lib) (auto simp: records_def split: option.splits meta_file.splits)

lemma length_records:
  "length (records lib) =
     length (filter (\<lambda>(i, d). case meta_json d of Some (Parsed data) \<Rightarrow> True | _ \<Rightarrow> False) lib)"
  by (induction lib) (auto simp: records_def split: option.splits meta_file.splits)

lemma records_filter:
  "records lib =
     map (\<lambda>(i, d). case meta_json d of Some (Parsed data) \<Rightarrow> data | _ \<Rightarrow> JNull)
       (filter (\<lambda>(i, d). case meta_json d of Some (Parsed data) \<Rightarrow> True | _ \<Rightarrow> False) lib)"
  by (induction lib) (auto simp: records_def split: option.splits meta_file.splits)

lemma mset_records_sort: "mset (records (sort_key k lib)) = mset (records lib)"
  unfolding records_filter by (simp only: mset_map mset_filter mset_sort)

text \<open>
  C6, as the claim states it, fails in two ways. A stem value that is not a string never
  has to decode: the loop passes over it (\<^verbatim>\<open>if not isinstance(value, str): continue\<close>)
  and the request succeeds, here even with a decoder that rejects every text. And a
  decode failure does not always give status 400: the file of an earlier stem is written
  outside the \<^verbatim>\<open>try\<close>, and for the stem name \<^verbatim>\<open>a/b\<close> the write raises
  FileNotFoundError before the stem that does not decode is reached, so the request
  answers 500.
\<close>

theorem save_library_decode_counterexample:
  "fst (save_library refuse_b64decode refuse_host_open ''s1'' ''2024-01-01T00:00:00''
          (Inr (JDict [(''stems'', JDict [(''vocals'', JNum 5)])])) []) =
     Inr (JDict [(''id'', JStr ''s1''), (''title'', JStr ''Session''),
                 (''stems'', JList [JStr ''vocals'']),
                 (''createdAt'', JStr ''2024-01-01T00:00:00Z''),
                 (''bundle'', JStr ''/api/library/s1/bundle'')])
   \<and> save_library example_b64decode refuse_host_open ''s1'' ''2024-01-01T00:00:00''
          (Inr (JDict [(''stems'', JDict [(''a/b'', JStr ''QUJD''), (''drums'', JStr ''QUJ'')])])) [] =
     (Inl OSError, [(''s1'', \<lparr>wavs = [], meta_json = None, bundle_zip = None\<rparr>)])"
  by (simp add: lib_eval)

text \<open>
  C6, amended. When some stem of the request has a string value that
  \<^verbatim>\<open>decode_data_url\<close> rejects (in the \<^verbatim>\<open>data:\<close> form or in the raw form), the
  whole operation fails and leaves no session record: the status is 400, or 500 when the
  file of an earlier stem could not be written, and it is 400 whenever every stem name is
  a plain file name; no \<^verbatim>\<open>meta.json\<close> is written or changed in any session,
  \<^verbatim>\<open>list_library\<close> answers what it answered before and, the session id being new,
  \<^verbatim>\<open>get_library_item\<close> and \<^verbatim>\<open>download_bundle\<close> answer 404 for it.
\<close>

theorem save_library_decode_failure:
  assumes "map_of p ''stems'' = Some (JDict stems)"
    and "(n, JStr v) \<in> set stems"
    and "decode_data_url D v = Inl msg"
  shows "\<exists>e lib'.
           save_library D H item_id now_iso (Inr (JDict p)) lib = (Inl e, lib')
         \<and> (status_code e = 400 \<or> status_code e = 500)
         \<and> (list_all (\<lambda>(m, u). plain_name m) stems \<longrightarrow> (\<exists>detail. e = HTTPException 400 detail))
         \<and> (\<forall>j. (case map_of lib' j of None \<Rightarrow> None | Some d \<Rightarrow> meta_json d) =
                 (case map_of lib j of None \<Rightarrow> None | Some d \<Rightarrow> meta_json d))
         \<and> list_library r arr lib' = list_library r arr lib
         \<and> (map_of lib item_id = None \<longrightarrow>
              get_library_item E r item_id lib' = Inl (HTTPException 404 ''Session not found.'')
            \<and> download_bundle item_id lib' = Inl (HTTPException 404 ''Bundle not found''))"
proof -
  from assms(2) have ne: "stems \<noteq> []" by auto
  obtain e lib' where
    w: "write_stems D H item_id stems (mkdir item_id lib) = (Some e, lib')"
    and st: "status_code e = 400 \<or> status_code e = 500"
    and pl: "list_all (\<lambda>(m, u). plain_name m) stems \<longrightarrow> (\<exists>detail. e = HTTPException 400 detail)"
    using write_stems_failure [OF assms(2,3), of H item_id "mkdir item_id lib"] by blast
  have res: "save_library D H item_id now_iso (Inr (JDict p)) lib = (Inl e, lib')"
    using assms(1) ne w by (simp add: save_library_def Let_def)
  have ww: "without_wavs lib' = without_wavs (mkdir item_id lib)"
    using w by (rule write_stems_without_wavs)
  have mo: "map_of (without_wavs lib') j =
      (if j = item_id \<and> map_of lib item_id = None then Some (None, None)
       else map_of (without_wavs lib) j)" for j
    by (simp add: ww meta_of_mkdir)
  have meta: "(case map_of lib' j of None \<Rightarrow> None | Some d \<Rightarrow> meta_json d) =
      (case map_of lib j of None \<Rightarrow> None | Some d \<Rightarrow> meta_json d)" for j
    using mo [of j] by (auto simp: map_of_without_wavs split: option.splits if_splits)
  have ll: "list_library r arr lib' = list_library r arr lib"
    using ww by (rule list_library_without_wavs)
  have fresh: "get_library_item E r item_id lib' = Inl (HTTPException 404 ''Session not found.'')
      \<and> download_bundle item_id lib' = Inl (HTTPException 404 ''Bundle not found'')"
    if "map_of lib item_id = None"
    using mo [of item_id] that
    by (auto simp: map_of_without_wavs get_library_item_def download_bundle_def
        split: option.splits)
  have all: "save_library D H item_id now_iso (Inr (JDict p)) lib = (Inl e, lib')
         \<and> (status_code e = 400 \<or> status_code e = 500)
         \<and> (list_all (\<lambda>(m, u). plain_name m) stems \<longrightarrow> (\<exists>detail. e = HTTPException 400 detail))
         \<and> (\<forall>j. (case map_of lib' j of None \<Rightarrow> None | Some d \<Rightarrow> meta_json d) =
                 (case map_of lib j of None \<Rightarrow> None | Some d \<Rightarrow> meta_json d))
         \<and> list_library r arr lib' = list_library r arr lib
         \<and> (map_of lib item_id = None \<longrightarrow>
              get_library_item E r item_id lib' = Inl (HTTPException 404 ''Session not found.'')
            \<and> download_bundle item_id lib' = Inl (HTTPException 404 ''Bundle not found''))"
    using res st pl meta ll fresh by simp
  show ?thesis
    by (rule exI [of _ e], rule exI [of _ lib'], rule all)
qed

theorem save_library_decode_failure_witness:
  "save_library example_b64decode refuse_host_open ''s1'' ''2024-01-01T00:00:00''
       (Inr (JDict [(''stems'', JDict [(''vocals'', JStr ''data:audio/wav;base64,QUJD''),
                                       (''drums'', JStr ''QUJ'')])])) [] =
     (Inl (HTTPException 400
        (''Could not decode stem '' @ [CHR 0x27] @ ''drums'' @ [CHR 0x27] @ '': Incorrect padding'')),
      [(''s1'', \<lparr>wavs = [(''vocals'', ''ABC'')], meta_json = None, bundle_zip = None\<rparr>)])
   \<and> list_library example_dir_rank refuse_sort_by_arrays
        [(''s1'', \<lparr>wavs = [(''vocals'', ''ABC'')], meta_json = None, bundle_zip = None\<rparr>)] = Inr []
   \<and> get_library_item example_b64encode example_dir_rank ''s1''
        [(''s1'', \<lparr>wavs = [(''vocals'', ''ABC'')], meta_json = None, bundle_zip = None\<rparr>)] =
       Inl (HTTPException 404 ''Session not found.'')"
  using save_library_decode_failure
    [of "[(''stems'', JDict [(''vocals'', JStr ''data:audio/wav;base64,QUJD''),
                             (''drums'', JStr ''QUJ'')])]"
      "[(''vocals'', JStr ''data:audio/wav;base64,QUJD''), (''drums'', JStr ''QUJ'')]"
      "''drums''" "''QUJ''" example_b64decode "''Incorrect padding''" refuse_host_open "''s1''"
      "''2024-01-01T00:00:00''" "[]" example_dir_rank refuse_sort_by_arrays example_b64encode]
  by (simp add: lib_eval)

text \<open>
  C9, as the claim states it, fails on three kinds of directory: a \<^verbatim>\<open>meta.json\<close>
  that parses to a value that is not an object makes the key function raise
  AttributeError; objects whose \<^verbatim>\<open>createdAt\<close> values are a string and a number make
  the sort raise TypeError; and a record that holds \<^verbatim>\<open>NaN\<close> (as \<^verbatim>\<open>json.loads\<close>
  accepts it, here as the title) makes the rendering of the answer raise ValueError. None
  of the three is caught, so the request answers 500.
\<close>

theorem list_library_counterexample:
  "list_library example_dir_rank refuse_sort_by_arrays
     [(''s1'', \<lparr>wavs = [], meta_json = Some (Parsed (JList [])), bundle_zip = None\<rparr>)] =
     Inl AttributeError
   \<and> list_library example_dir_rank refuse_sort_by_arrays
     [(''s1'', \<lparr>wavs = [],
         meta_json = Some (Parsed (JDict [(''createdAt'', JStr ''2024-01-01T00:00:00Z'')])),
         bundle_zip = None\<rparr>),
      (''s2'', \<lparr>wavs = [], meta_json = Some (Parsed (JDict [(''createdAt'', JNum 5)])),
         bundle_zip = None\<rparr>)] =
     Inl TypeError
   \<and> list_library example_dir_rank refuse_sort_by_arrays
     [(''s1'', \<lparr>wavs = [],
         meta_json = Some (Parsed (JDict [(''title'', JNaN),
                                          (''createdAt'', JStr ''2024-01-01T00:00:00Z'')])),
         bundle_zip = None\<rparr>)] =
     Inl ValueError"
  by (simp add: lib_eval)

text \<open>
  C9, amended. For every state of the library directory in which each metadata record
  that parses is a JSON object that the answer can render (no \<^verbatim>\<open>NaN\<close>, no infinite
  number; the text of the model is always encodable) and whose \<^verbatim>\<open>createdAt\<close>, when
  present, is a string, and for every order in which the directory is enumerated:
  \<^verbatim>\<open>list_library\<close> returns exactly the records that parse, one per session whose
  \<^verbatim>\<open>meta.json\<close> parses (sessions whose metadata is missing or does not parse are
  passed over), in the stable ascending order of the \<^verbatim>\<open>createdAt\<close> strings (the
  empty string when the key is absent).
\<close>

theorem list_library_sorted:
  assumes "\<forall>(i, d) \<in> set lib. \<forall>data. meta_json d = Some (Parsed data) \<longrightarrow>
             is_dict data \<and> renderable data
           \<and> (case map_of (dict_items data) ''createdAt'' of None \<Rightarrow> True | Some v \<Rightarrow> is_str v)"
  shows "\<exists>items.
           list_library r arr lib = Inr items
         \<and> items =
             sort_key (\<lambda>item. case map_of (dict_items item) ''createdAt'' of
                                 None \<Rightarrow> [] | Some v \<Rightarrow> str_value v)
               (concat (map (\<lambda>(i, d). case meta_json d of Some (Parsed data) \<Rightarrow> [data] | _ \<Rightarrow> [])
                          (sort_key (\<lambda>(i, d). r i) lib)))
         \<and> mset items =
             mset (concat (map (\<lambda>(i, d). case meta_json d of Some (Parsed data) \<Rightarrow> [data]
                                          | _ \<Rightarrow> []) lib))
         \<and> length items =
             length (filter (\<lambda>(i, d). case meta_json d of Some (Parsed data) \<Rightarrow> True
                                       | _ \<Rightarrow> False) lib)
         \<and> sorted (map (\<lambda>item. case map_of (dict_items item) ''createdAt'' of
                                  None \<Rightarrow> [] | Some v \<Rightarrow> str_value v) items)"
proof -
  let ?key = "\<lambda>item. case map_of (dict_items item) ''createdAt'' of
                        None \<Rightarrow> [] | Some v \<Rightarrow> str_value v"
  let ?recs = "records (sort_key (\<lambda>(i, d). r i) lib)"
  have key: "(\<lambda>item. str_value (created_key item)) = ?key"
    by (auto simp: fun_eq_iff created_key_def split: option.splits)
  have each: "is_dict data \<and> renderable data \<and> is_str (created_key data)"
    if "(i, d) \<in> set lib" and "meta_json d = Some (Parsed data)" for i d data
  proof -
    from assms that have "is_dict data \<and> renderable data
        \<and> (case map_of (dict_items data) ''createdAt'' of None \<Rightarrow> True | Some v \<Rightarrow> is_str v)"
      by blast
    then show ?thesis
      by (simp add: created_key_def split: option.splits)
  qed
  have all: "list_all (\<lambda>data. is_dict data \<and> renderable data \<and> is_str (created_key data)) ?recs"
    unfolding list_all_records using each by auto
  then have d: "list_all is_dict ?recs"
    and k: "list_all (\<lambda>item. is_str (created_key item)) ?recs"
    and rr: "list_all renderable ?recs"
    by (simp_all add: list_all_iff)
  have "list_all renderable (sort_key ?key ?recs)"
    using rr by (simp add: list_all_iff)
  then have res: "list_library r arr lib = Inr (sort_key ?key ?recs)"
    using d k by (simp add: list_library_def sort_items_def key)
  have m: "mset (sort_key ?key ?recs) = mset (records lib)"
    by (simp add: mset_records_sort)
  have "length ?recs = length (records lib)"
    using mset_records_sort [of "\<lambda>(i, d). r i" lib] by (rule mset_eq_length)
  then have l: "length (sort_key ?key ?recs) =
      length (filter (\<lambda>(i, d). case meta_json d of Some (Parsed data) \<Rightarrow> True
                                | _ \<Rightarrow> False) lib)"
    by (simp add: length_records)
  have s: "sorted (map ?key (sort_key ?key ?recs))"
    by (rule sorted_sort_key)
  show ?thesis
    using res m l s unfolding records_def
    by (intro exI [of _ "sort_key ?key (concat (map (\<lambda>(i, d). case meta_json d of
          Some (Parsed data) \<Rightarrow> [data] | _ \<Rightarrow> []) (sort_key (\<lambda>(i, d). r i) lib)))"] conjI)
      simp_all
qed

theorem list_library_sorted_witness:
  "list_library example_dir_rank refuse_sort_by_arrays
     [(''s1'', \<lparr>wavs = [],
         meta_json = Some (Parsed (JDict [(''id'', JStr ''s1''),
                                          (''createdAt'', JStr ''2024-03-01T00:00:00Z'')])),
         bundle_zip = None\<rparr>),
      (''s2'', \<lparr>wavs = [], meta_json = Some Unparseable, bundle_zip = None\<rparr>),
      (''s3'', \<lparr>wavs = [],
         meta_json = Some (Parsed (JDict [(''id'', JStr ''s3''),
                                          (''createdAt'', JStr ''2024-01-01T00:00:00Z'')])),
         bundle_zip = None\<rparr>),
      (''s4'', \<lparr>wavs = [], meta_json = None, bundle_zip = None\<rparr>)] =
   Inr [JDict [(''id'', JStr ''s3''), (''createdAt'', JStr ''2024-01-01T00:00:00Z'')],
        JDict [(''id'', JStr ''s1''), (''createdAt'', JStr ''2024-03-01T00:00:00Z'')]]"
  using list_library_sorted
    [of "[(''s1'', \<lparr>wavs = [],
         meta_json = Some (Parsed (JDict [(''id'', JStr ''s1''),
                                          (''createdAt'', JStr ''2024-03-01T00:00:00Z'')])),
         bundle_zip = None\<rparr>),
      (''s2'', \<lparr>wavs = [], meta_json = Some Unparseable, bundle_zip = None\<rparr>),
      (''s3'', \<lparr>wavs = [],
         meta_json = Some (Parsed (JDict [(''id'', JStr ''s3''),
                                          (''createdAt'', JStr ''2024-01-01T00:00:00Z'')])),
         bundle_zip = None\<rparr>),
      (''s4'', \<lparr>wavs = [], meta_json = None, bundle_zip = None\<rparr>)]"
      example_dir_rank refuse_sort_by_arrays]
  by (simp add: lib_eval)

text \<open>
  C10. \<^verbatim>\<open>save_library\<close> passes over every stem whose value is not a string: the loop
  does what it would do for the string-valued stems alone. Whenever the request succeeds,
  whatever its stem values are, the metadata that is answered and written to
  \<^verbatim>\<open>meta.json\<close> lists every key of the stems mapping, in order, as a stem name. And
  when the stems mapping is not empty, none of its values is a string, the session id is
  new and the title can be rendered, the request succeeds, no stem file is written, and
  \<^verbatim>\<open>get_library_item\<close> for the new id answers that metadata with an empty
  \<^verbatim>\<open>stems\<close> mapping.
\<close>

theorem save_library_skips_non_strings:
  assumes "map_of p ''stems'' = Some (JDict stems)"
  shows "write_stems D H i stems' lib0 =
           write_stems D H i (filter (\<lambda>(n, v). is_str v) stems') lib0
       \<and> (\<forall>m lib'. save_library D H item_id now_iso (Inr (JDict p)) lib = (Inr m, lib') \<longrightarrow>
              map_of (dict_items m) ''stems'' = Some (JList (map (\<lambda>(n, v). JStr n) stems))
            \<and> map_option meta_json (map_of lib' item_id) = Some (Some (Parsed m)))
       \<and> (stems \<noteq> [] \<and> list_all (\<lambda>(n, v). \<not> is_str v) stems \<and> map_of lib item_id = None
            \<and> (case map_of p ''title'' of None \<Rightarrow> True | Some t \<Rightarrow> renderable t) \<longrightarrow>
            (\<exists>metadata lib'.
               save_library D H item_id now_iso (Inr (JDict p)) lib = (Inr (JDict metadata), lib')
             \<and> map_of metadata ''stems'' = Some (JList (map (\<lambda>(n, v). JStr n) stems))
             \<and> map_option wavs (map_of lib' item_id) = Some []
             \<and> get_library_item E r item_id lib' =
                 Inr (JDict (AList.update ''stems'' (JDict []) metadata))))"
proof (intro conjI allI impI)
  show "write_stems D H i stems' lib0 =
      write_stems D H i (filter (\<lambda>(n, v). is_str v) stems') lib0"
    by (rule write_stems_skip)
next
  fix m lib'
  assume ok: "save_library D H item_id now_iso (Inr (JDict p)) lib = (Inr m, lib')"
  obtain exc lib1 where w: "write_stems D H item_id stems (mkdir item_id lib) = (exc, lib1)"
    by (cases "write_stems D H item_id stems (mkdir item_id lib)")
  have ex: "map_of lib1 item_id \<noteq> None"
    using write_stems_without_wavs [OF w]
    by (simp add: map_of_lib_iff meta_of_mkdir)
  from ok w assms
  show "map_of (dict_items m) ''stems'' = Some (JList (map (\<lambda>(n, v). JStr n) stems))"
    by (auto simp: save_library_def Let_def split: if_splits option.splits)
  from ok w assms ex
  show "map_option meta_json (map_of lib' item_id) = Some (Some (Parsed m))"
    by (auto simp: save_library_def Let_def map_of_map_session write_meta_def
        split: if_splits option.splits)
next
  assume a: "stems \<noteq> [] \<and> list_all (\<lambda>(n, v). \<not> is_str v) stems \<and> map_of lib item_id = None
            \<and> (case map_of p ''title'' of None \<Rightarrow> True | Some t \<Rightarrow> renderable t)"
  then have w: "write_stems D H item_id stems (mkdir item_id lib) = (None, lib @ [(item_id, empty_dir)])"
    by (simp add: write_stems_no_str mkdir_def)
  let ?title = "case map_of p ''title'' of None \<Rightarrow> JStr ''Session''
                | Some t \<Rightarrow> if truthy t then t else JStr ''Session''"
  let ?md = "[(''id'', JStr item_id), (''title'', ?title),
              (''stems'', JList (map (\<lambda>(stem_name, v). JStr stem_name) stems)),
              (''createdAt'', JStr (now_iso @ ''Z'')),
              (''bundle'', JStr (''/api/library/'' @ item_id @ ''/bundle''))]"
  let ?lib' = "map_session item_id (write_meta (JDict ?md)) (lib @ [(item_id, empty_dir)])"
  have rt: "renderable ?title"
    using a by (auto split: option.splits)
  have rn: "list_all (\<lambda>b. b) (map renderable (map (\<lambda>(stem_name, v). JStr stem_name) stems))"
    by (auto simp: list_all_iff)
  have rm: "renderable (JDict ?md)"
    using rt rn by simp
  have res: "save_library D H item_id now_iso (Inr (JDict p)) lib = (Inr (JDict ?md), ?lib')"
    using assms a w rm by (simp add: save_library_def Let_def)
  have "map_of (lib @ [(item_id, empty_dir)]) item_id = Some empty_dir"
    using a by (simp add: map_add_def)
  then have at: "map_of ?lib' item_id = Some (write_meta (JDict ?md) empty_dir)"
    by (simp only: map_of_map_session refl if_True option.map)
  have rs: "renderable (JDict (AList.update ''stems'' (JDict []) ?md))"
    using rt by simp
  have g: "get_library_item E r item_id ?lib' =
      Inr (JDict (AList.update ''stems'' (JDict []) ?md))"
    unfolding get_library_item_def at
    using rs by (simp add: write_meta_def empty_dir_def Let_def)
  have "save_library D H item_id now_iso (Inr (JDict p)) lib = (Inr (JDict ?md), ?lib')
      \<and> map_of ?md ''stems'' = Some (JList (map (\<lambda>(n, v). JStr n) stems))
      \<and> map_option wavs (map_of ?lib' item_id) = Some []
      \<and> get_library_item E r item_id ?lib' =
          Inr (JDict (AList.update ''stems'' (JDict []) ?md))"
    using res g unfolding at by (simp add: write_meta_def empty_dir_def)
  then show "\<exists>metadata lib'.
               save_library D H item_id now_iso (Inr (JDict p)) lib = (Inr (JDict metadata), lib')
             \<and> map_of metadata ''stems'' = Some (JList (map (\<lambda>(n, v). JStr n) stems))
             \<and> map_option wavs (map_of lib' item_id) = Some []
             \<and> get_library_item E r item_id lib' =
                 Inr (JDict (AList.update ''stems'' (JDict []) metadata))"
    by (intro exI [of _ ?md] exI [of _ ?lib'])
qed

theorem save_library_skips_non_strings_witness:
  "save_library example_b64decode refuse_host_open ''s1'' ''2024-01-01T00:00:00''
       (Inr (JDict [(''title'', JStr ''Mix''),
                    (''stems'', JDict [(''vocals'', JStr ''QUJD''), (''drums'', JNull)])])) [] =
     (Inr (JDict [(''id'', JStr ''s1''), (''title'', JStr ''Mix''),
                  (''stems'', JList [JStr ''vocals'', JStr ''drums'']),
                  (''createdAt'', JStr ''2024-01-01T00:00:00Z''),
                  (''bundle'', JStr ''/api/library/s1/bundle'')]),
      [(''s1'', \<lparr>wavs = [(''vocals'', ''ABC'')],
          meta_json = Some (Parsed (JDict [(''id'', JStr ''s1''), (''title'', JStr ''Mix''),
                  (''stems'', JList [JStr ''vocals'', JStr ''drums'']),
                  (''createdAt'', JStr ''2024-01-01T00:00:00Z''),
                  (''bundle'', JStr ''/api/library/s1/bundle'')])),
          bundle_zip = Some ([(''vocals'', ''ABC'')],
            Some (Parsed (JDict [(''id'', JStr ''s1''), (''title'', JStr ''Mix''),
                  (''stems'', JList [JStr ''vocals'', JStr ''drums'']),
                  (''createdAt'', JStr ''2024-01-01T00:00:00Z''),
                  (''bundle'', JStr ''/api/library/s1/bundle'')])))\<rparr>)])
   \<and> fst (save_library refuse_b64decode refuse_host_open ''s2'' ''2024-01-02T00:00:00''
          (Inr (JDict [(''stems'', JDict [(''vocals'', JNum 5), (''drums'', JNull)])])) []) =
     Inr (JDict [(''id'', JStr ''s2''), (''title'', JStr ''Session''),
                 (''stems'', JList [JStr ''vocals'', JStr ''drums'']),
                 (''createdAt'', JStr ''2024-01-02T00:00:00Z''),
                 (''bundle'', JStr ''/api/library/s2/bundle'')])
   \<and> get_library_item example_b64encode example_dir_rank ''s2''
       (snd (save_library refuse_b64decode refuse_host_open ''s2'' ''2024-01-02T00:00:00''
          (Inr (JDict [(''stems'', JDict [(''vocals'', JNum 5), (''drums'', JNull)])])) [])) =
     Inr (JDict [(''id'', JStr ''s2''), (''title'', JStr ''Session''),
                 (''stems'', JDict []),
                 (''createdAt'', JStr ''2024-01-02T00:00:00Z''),
                 (''bundle'', JStr ''/api/library/s2/bundle'')])"
  using save_library_skips_non_strings
    [of "[(''title'', JStr ''Mix''),
          (''stems'', JDict [(''vocals'', JStr ''QUJD''), (''drums'', JNull)])]"
      "[(''vocals'', JStr ''QUJD''), (''drums'', JNull)]" example_b64decode refuse_host_open
      "''s1''" "[(''vocals'', JStr ''QUJD''), (''drums'', JNull)]" "[(''s1'', empty_dir)]"
      "''s1''" "''2024-01-01T00:00:00''" "[]" example_b64encode example_dir_rank]
    save_library_skips_non_strings
    [of "[(''stems'', JDict [(''vocals'', JNum 5), (''drums'', JNull)])]"
      "[(''vocals'', JNum 5), (''drums'', JNull)]" refuse_b64decode refuse_host_open
      "''s2''" "[]" "[]" "''s2''" "''2024-01-02T00:00:00''" "[]" example_b64encode
      example_dir_rank]
  by (simp add: lib_eval)

subsection \<open>Separation\<close>

lemmas separate_eval = separate_def stream_copy_to_path_def extract_audio_def call_ffmpeg_def
  call_separate_to_file_def get_separator_def collect_response_def path_eval
  VIDEO_EXTENSIONS_def EXPECTED_STEMS_def lower_def lower_char_def Let_def
  encode_audio_file_def example_b64encode_def refuse_host_open_def example_ffmpeg_run_def
  failing_ffmpeg_run_def example_Separator_def example_separate_to_file_def
  silent_separate_to_file_def

lemma collect_stems_found:
  "collect_stems E fs d ns = Inr found \<Longrightarrow> (n, v) \<in> set found \<Longrightarrow>
     n \<in> set ns \<and> prefix ''data:audio/wav;base64,'' v"
  by (induction ns arbitrary: found)
     (auto simp: encode_audio_file_def split: option.splits node.splits sum.splits)

lemma collect_stems_none:
  "\<forall>n \<in> set ns. fs (d @ ''/'' @ n @ ''.wav'') = None \<Longrightarrow> collect_stems E fs d ns = Inr []"
  by (induction ns) auto

lemma collect_response_none:
  assumes "\<forall>n \<in> set EXPECTED_STEMS. fs (path_stem f @ ''/'' @ n @ ''.wav'') = None"
  shows "\<exists>d. collect_response E fs f m = Inl (HTTPException 500 d)"
  using collect_stems_none [OF assms, of E]
  by (simp add: collect_response_def Let_def)

lemma collect_response_ok:
  assumes "collect_response E fs f m = Inr resp"
  shows "response_stems resp \<noteq> [] \<and> set (map fst (response_stems resp)) \<subseteq> set EXPECTED_STEMS
     \<and> (\<forall>(n, v) \<in> set (response_stems resp). prefix ''data:audio/wav;base64,'' v)
     \<and> response_model resp = m"
  using assms
  by (auto simp add: collect_response_def Let_def split: if_splits sum.splits
        dest: collect_stems_found)

lemma separate_Inr:
  assumes "separate E H ffmpeg_run Separator separate_to_file file m cache =
    (Inr resp, cache', events)"
  shows "\<exists>fs f. collect_response E fs f m = Inr resp"
  using assms
  by (auto simp add: separate_def call_separate_to_file_def
      split: option.splits if_splits prod.splits sum.splits outcome.splits)

lemma stream_copy_to_path_fs:
  "stream_copy_to_path H fname data = Inr (input_path, fs0) \<Longrightarrow>
     fs0 = [input_path \<mapsto> File data] \<and> input_path = path_str fname"
  by (auto simp: stream_copy_to_path_def Let_def split: if_splits)

text \<open>
  C7, as the claim states it, fails for an upload that cannot be copied into the temporary
  directory: the file name \<^verbatim>\<open>d/Clip.mp4\<close> has a video extension, but
  \<^verbatim>\<open>destination.open("wb")\<close> raises FileNotFoundError (there is no directory
  \<^verbatim>\<open>d\<close>), the request answers 500, and neither the conversion nor the separation
  is called.
\<close>

theorem separate_conversion_counterexample:
  "lower (path_suffix ''d/Clip.mp4'') \<in> set VIDEO_EXTENSIONS
   \<and> separate example_b64encode refuse_host_open example_ffmpeg_run example_Separator
       example_separate_to_file \<lparr>filename = Some ''d/Clip.mp4'', content = ''mp4 bytes''\<rparr>
       ''spleeter:4stems'' Map.empty =
     (Inl OSError, Map.empty, [])"
  by (simp add: separate_eval)

text \<open>
  C7, amended. For a request whose upload has been copied into the temporary directory
  (the copy holds the uploaded bytes): when the suffix of the file name, in lower case, is
  one of \<^verbatim>\<open>VIDEO_EXTENSIONS\<close>, the conversion of the copy is called first; if it raises
  \<^verbatim>\<open>ffmpeg.Error\<close> the request fails with status 500 whatever the separator would
  do, and nothing is separated; if it returns and the separator is available, the answer
  is made from the separation of the converted file in the directory as the conversion
  left it. For every other suffix no conversion is called, and once the separator is
  available the answer is made from the separation of the copy itself. The answer, the
  cache and the calls are given in full.
\<close>

theorem separate_conversion:
  assumes "filename file = Some fname"
    and "fname \<noteq> []"
    and "stream_copy_to_path H fname (content file) = Inr (input_path, fs0)"
  shows
   "fs0 = [input_path \<mapsto> File (content file)]
    \<and> (lower (path_suffix input_path) \<in> set VIDEO_EXTENSIONS \<longrightarrow>
        (\<forall>exc. ffmpeg_run input_path (path_stem input_path @ ''_audio.wav'') fs0 = FfmpegError exc \<longrightarrow>
            separate E H ffmpeg_run Separator separate_to_file file m cache =
              (Inl (HTTPException 500 (''Could not extract audio from video: '' @ exc)), cache,
               [FfmpegRun input_path (path_stem input_path @ ''_audio.wav'')]))
      \<and> (ffmpeg_run input_path (path_stem input_path @ ''_audio.wav'') fs0 = FfmpegNotRun \<longrightarrow>
            separate E H ffmpeg_run Separator separate_to_file file m cache =
              (Inl OSError, cache, [FfmpegRun input_path (path_stem input_path @ ''_audio.wav'')]))
      \<and> (\<forall>fs1 e c.
            ffmpeg_run input_path (path_stem input_path @ ''_audio.wav'') fs0 = Converted fs1
            \<and> get_separator Separator m cache = (Inl e, c) \<longrightarrow>
            separate E H ffmpeg_run Separator separate_to_file file m cache =
              (Inl e, c, [FfmpegRun input_path (path_stem input_path @ ''_audio.wav'')]))
      \<and> (\<forall>fs1 h c.
            ffmpeg_run input_path (path_stem input_path @ ''_audio.wav'') fs0 = Converted fs1
            \<and> get_separator Separator m cache = (Inr h, c) \<longrightarrow>
            separate E H ffmpeg_run Separator separate_to_file file m cache =
              (case separate_to_file h (path_stem input_path @ ''_audio.wav'') fs1 of
                 Raises exc \<Rightarrow> Inl (HTTPException 500 (''Stem separation failed: '' @ exc))
               | Returns fs2 \<Rightarrow> collect_response E fs2 fname m,
               c,
               [FfmpegRun input_path (path_stem input_path @ ''_audio.wav''),
                SeparateToFile (path_stem input_path @ ''_audio.wav'')
                  (fs1 (path_stem input_path @ ''_audio.wav''))])))
    \<and> (lower (path_suffix input_path) \<notin> set VIDEO_EXTENSIONS \<longrightarrow>
        (\<forall>e c. get_separator Separator m cache = (Inl e, c) \<longrightarrow>
            separate E H ffmpeg_run Separator separate_to_file file m cache = (Inl e, c, []))
      \<and> (\<forall>h c. get_separator Separator m cache = (Inr h, c) \<longrightarrow>
            separate E H ffmpeg_run Separator separate_to_file file m cache =
              (case separate_to_file h input_path fs0 of
                 Raises exc \<Rightarrow> Inl (HTTPException 500 (''Stem separation failed: '' @ exc))
               | Returns fs2 \<Rightarrow> collect_response E fs2 fname m,
               c,
               [SeparateToFile input_path (Some (File (content file)))])))"
proof -
  have fs0: "fs0 = [input_path \<mapsto> File (content file)]"
    using stream_copy_to_path_fs [OF assms(3)] by simp
  show ?thesis
    using assms(1,2,3) fs0
    by (auto simp add: separate_def extract_audio_def call_ffmpeg_def call_separate_to_file_def
        Let_def split: outcome.splits)
qed

theorem separate_conversion_witness:
  "separate example_b64encode refuse_host_open example_ffmpeg_run example_Separator
       example_separate_to_file \<lparr>filename = Some ''Clip.MP4'', content = ''mp4 bytes''\<rparr>
       ''spleeter:4stems'' Map.empty =
     (Inr \<lparr>response_model = ''spleeter:4stems'',
           response_stems = [(''vocals'', ''data:audio/wav;base64,Vg=='')]\<rparr>,
      [''spleeter:4stems'' \<mapsto> 0],
      [FfmpegRun ''Clip.MP4'' ''Clip_audio.wav'',
       SeparateToFile ''Clip_audio.wav'' (Some (File ''RIFF''))])
   \<and> separate example_b64encode refuse_host_open failing_ffmpeg_run example_Separator
       example_separate_to_file \<lparr>filename = Some ''Clip.MP4'', content = ''mp4 bytes''\<rparr>
       ''spleeter:4stems'' Map.empty =
     (Inl (HTTPException 500 ''Could not extract audio from video: moov atom not found''),
      Map.empty, [FfmpegRun ''Clip.MP4'' ''Clip_audio.wav''])
   \<and> separate example_b64encode refuse_host_open example_ffmpeg_run example_Separator
       example_separate_to_file \<lparr>filename = Some ''song.mp3'', content = ''mp3 bytes''\<rparr>
       ''spleeter:4stems'' Map.empty =
     (Inr \<lparr>response_model = ''spleeter:4stems'',
           response_stems = [(''vocals'', ''data:audio/wav;base64,Vg=='')]\<rparr>,
      [''spleeter:4stems'' \<mapsto> 0],
      [SeparateToFile ''song.mp3'' (Some (File ''mp3 bytes''))])"
  using
    separate_conversion [of "\<lparr>filename = Some ''Clip.MP4'', content = ''mp4 bytes''\<rparr>" "''Clip.MP4''"
      refuse_host_open "''Clip.MP4''" "[''Clip.MP4'' \<mapsto> File ''mp4 bytes'']"
      example_ffmpeg_run example_b64encode example_Separator example_separate_to_file
      "''spleeter:4stems''" Map.empty]
    separate_conversion [of "\<lparr>filename = Some ''Clip.MP4'', content = ''mp4 bytes''\<rparr>" "''Clip.MP4''"
      refuse_host_open "''Clip.MP4''" "[''Clip.MP4'' \<mapsto> File ''mp4 bytes'']"
      failing_ffmpeg_run example_b64encode example_Separator example_separate_to_file
      "''spleeter:4stems''" Map.empty]
    separate_conversion [of "\<lparr>filename = Some ''song.mp3'', content = ''mp3 bytes''\<rparr>" "''song.mp3''"
      refuse_host_open "''song.mp3''" "[''song.mp3'' \<mapsto> File ''mp3 bytes'']"
      example_ffmpeg_run example_b64encode example_Separator example_separate_to_file
      "''spleeter:4stems''" Map.empty]
  by (simp add: separate_eval)

text \<open>
  C8. A successful answer of \<^verbatim>\<open>separate\<close> has a non-empty stems mapping whose keys
  are among vocals, drums, bass and other, and every value starts with
  \<^verbatim>\<open>data:audio/wav;base64,\<close>. When the copy of the upload, the conversion block and
  the separator succeed and the directory that the separation leaves holds none of the
  four expected stem files, the request fails with status 500.
\<close>

theorem separate_stems:
  "(separate E H ffmpeg_run Separator separate_to_file file m cache = (Inr resp, cache', events) \<longrightarrow>
      response_stems resp \<noteq> []
    \<and> set (map fst (response_stems resp)) \<subseteq> {''vocals'', ''drums'', ''bass'', ''other''}
    \<and> (\<forall>(n, v) \<in> set (response_stems resp). prefix ''data:audio/wav;base64,'' v))
   \<and> (filename file = Some f \<and> f \<noteq> []
      \<and> stream_copy_to_path H f (content file) = Inr (input_path, fs0)
      \<and> extract_audio ffmpeg_run input_path fs0 = (Inr (src, fs1), ev)
      \<and> get_separator Separator m cache = (Inr h, cache1)
      \<and> separate_to_file h src fs1 = Returns fs2
      \<and> (\<forall>n \<in> set EXPECTED_STEMS. fs2 (path_stem f @ ''/'' @ n @ ''.wav'') = None) \<longrightarrow>
      (\<exists>d. fst (separate E H ffmpeg_run Separator separate_to_file file m cache) =
              Inl (HTTPException 500 d)))"
proof (intro conjI impI)
  assume a: "separate E H ffmpeg_run Separator separate_to_file file m cache =
    (Inr resp, cache', events)"
  then obtain fs f where "collect_response E fs f m = Inr resp"
    using separate_Inr by blast
  from collect_response_ok [OF this]
  show "response_stems resp \<noteq> []"
    and "set (map fst (response_stems resp)) \<subseteq> {''vocals'', ''drums'', ''bass'', ''other''}"
    and "\<forall>(n, v) \<in> set (response_stems resp). prefix ''data:audio/wav;base64,'' v"
    by (simp_all add: EXPECTED_STEMS_def)
next
  assume b: "filename file = Some f \<and> f \<noteq> []
      \<and> stream_copy_to_path H f (content file) = Inr (input_path, fs0)
      \<and> extract_audio ffmpeg_run input_path fs0 = (Inr (src, fs1), ev)
      \<and> get_separator Separator m cache = (Inr h, cache1)
      \<and> separate_to_file h src fs1 = Returns fs2
      \<and> (\<forall>n \<in> set EXPECTED_STEMS. fs2 (path_stem f @ ''/'' @ n @ ''.wav'') = None)"
  then obtain d where "collect_response E fs2 f m = Inl (HTTPException 500 d)"
    using collect_response_none by blast
  with b show "\<exists>d. fst (separate E H ffmpeg_run Separator separate_to_file file m cache) =
              Inl (HTTPException 500 d)"
    by (simp add: separate_def call_separate_to_file_def)
qed

theorem separate_stems_witness:
  "separate (\<lambda>b. ''Vg=='') (\<lambda>p. False) (\<lambda>i out fs. Converted fs) (\<lambda>m. Returns (0::nat))
       (\<lambda>h src fs. Returns (fs(''song'' \<mapsto> Dir, ''song/vocals.wav'' \<mapsto> File ''V'')))
       \<lparr>filename = Some ''song.mp3'', content = ''mp3 bytes''\<rparr> ''spleeter:2stems'' Map.empty =
     (Inr \<lparr>response_model = ''spleeter:2stems'',
           response_stems = [(''vocals'', ''data:audio/wav;base64,Vg=='')]\<rparr>,
      [''spleeter:2stems'' \<mapsto> 0], [SeparateToFile ''song.mp3'' (Some (File ''mp3 bytes''))])
   \<and> fst (separate (\<lambda>b. ''Vg=='') (\<lambda>p. False) (\<lambda>i out fs. Converted fs) (\<lambda>m. Returns (0::nat))
       (\<lambda>h src fs. Returns (fs(''song'' \<mapsto> Dir, ''song/piano.wav'' \<mapsto> File ''P'')))
       \<lparr>filename = Some ''song.mp3'', content = ''mp3 bytes''\<rparr> ''spleeter:2stems'' Map.empty) =
     Inl (HTTPException 500 ''No stems were generated by Spleeter.'')"
  using separate_stems [of "\<lambda>b. ''Vg==''" "\<lambda>p. False" "\<lambda>i out fs. Converted fs"
      "\<lambda>m. Returns (0::nat)"
      "\<lambda>h src fs. Returns (fs(''song'' \<mapsto> Dir, ''song/vocals.wav'' \<mapsto> File ''V''))"
      "\<lparr>filename = Some ''song.mp3'', content = ''mp3 bytes''\<rparr>" "''spleeter:2stems''" Map.empty
      "\<lparr>response_model = ''spleeter:2stems'',
           response_stems = [(''vocals'', ''data:audio/wav;base64,Vg=='')]\<rparr>"
      "[''spleeter:2stems'' \<mapsto> 0]" "[SeparateToFile ''song.mp3'' (Some (File ''mp3 bytes''))]"]
    separate_stems [of "\<lambda>b. ''Vg==''" "\<lambda>p. False" "\<lambda>i out fs. Converted fs"
      "\<lambda>m. Returns (0::nat)"
      "\<lambda>h src fs. Returns (fs(''song'' \<mapsto> Dir, ''song/piano.wav'' \<mapsto> File ''P''))"
      "\<lparr>filename = Some ''song.mp3'', content = ''mp3 bytes''\<rparr>" "''spleeter:2stems''" Map.empty
      _ _ _ "''song.mp3''" "''song.mp3''" "[''song.mp3'' \<mapsto> File ''mp3 bytes'']"
      "''song.mp3''" "[''song.mp3'' \<mapsto> File ''mp3 bytes'']" "[]" 0
      "[''spleeter:2stems'' \<mapsto> 0]"
      "[''song.mp3'' \<mapsto> File ''mp3 bytes'', ''song'' \<mapsto> Dir, ''song/piano.wav'' \<mapsto> File ''P'']"]
  by (simp add: separate_eval)

end
